theory Spec2Isabelle
  imports Main
begin

section \<open>ECMAScript built-ins used by the model decoder\<close>

text \<open>
  The decoder of \<^verbatim>\<open>src/model.ts\<close> is written against a few built-ins of the language.
  They are modelled here once. JavaScript strings are lists of code units; this development
  uses \<^typ>\<open>string\<close>, so a code unit is a \<^typ>\<open>char\<close> (values below 256).
  An object used as a dictionary (\<^verbatim>\<open>{}\<close>) is a map on its own keys. What a lookup finds
  through the prototype of such an object is modelled where the decoder looks up: the members
  of \<^verbatim>\<open>Object.prototype\<close> under their twelve names, the prototype that an assignment to the
  key \<^verbatim>\<open>__proto__\<close> installs (such an assignment makes no own key; the entry of a map
  under \<^verbatim>\<open>__proto__\<close> is that prototype), and the key \<^verbatim>\<open>"undefined"\<close> that an absent array
  slot coerces to. Outside the model are the effects of a definition whose name is
  \<^verbatim>\<open>__proto__\<close> on lookups of other names, for three of the tables: a function of that name
  (its entries are written on \<^verbatim>\<open>Object.prototype\<close> itself), a heap mapping of that name (the
  table then inherits the members of a function) and a set of properties of that name (the
  table then inherits the members of a \<^verbatim>\<open>Set\<close>).
\<close>

definition backslash :: char where
  "backslash = CHR 0x5C"

definition dquote :: char where
  "dquote = CHR 0x22"

definition startsWith :: "string \<Rightarrow> string \<Rightarrow> bool" where
  "startsWith s p = (take (length p) s = p)"

definition endsWith :: "string \<Rightarrow> string \<Rightarrow> bool" where
  "endsWith s p = (length p \<le> length s \<and> drop (length s - length p) s = p)"

text \<open>\<^verbatim>\<open>s.substr(start, len)\<close> for a start inside the string; a negative length gives the empty string.\<close>

definition substr :: "string \<Rightarrow> nat \<Rightarrow> int \<Rightarrow> string" where
  "substr s start len = take (nat len) (drop start s)"

definition isWhiteSpace :: "char \<Rightarrow> bool" where
  "isWhiteSpace c = ((of_char c :: nat) \<in> {9, 10, 11, 12, 13, 32, 160})"

definition trim :: "string \<Rightarrow> string" where
  "trim s = rev (dropWhile isWhiteSpace (rev (dropWhile isWhiteSpace s)))"

fun intercalate :: "string \<Rightarrow> string list \<Rightarrow> string" where
  "intercalate sep [] = []"
| "intercalate sep [x] = x"
| "intercalate sep (x # y # ys) = x @ sep @ intercalate sep (y # ys)"

text \<open>
  Integral numbers as \<^verbatim>\<open>parseInt\<close> returns them and as they index arrays: \<open>NaN\<close> or an
  integer. Integers are exact here (a double is, below \<open>2^53\<close>).
\<close>

datatype jsint = NaN | Finite int

definition digitValue :: "char \<Rightarrow> nat option" where
  "digitValue c =
     (let n = (of_char c :: nat) in
      if 48 \<le> n \<and> n \<le> 57 then Some (n - 48)
      else if 97 \<le> n \<and> n \<le> 122 then Some (n - 87)
      else if 65 \<le> n \<and> n \<le> 90 then Some (n - 55)
      else None)"

definition isDigitOf :: "nat \<Rightarrow> char \<Rightarrow> bool" where
  "isDigitOf radix c = (case digitValue c of None \<Rightarrow> False | Some d \<Rightarrow> d < radix)"

definition digitsValue :: "nat \<Rightarrow> string \<Rightarrow> nat" where
  "digitsValue radix ds = foldl (\<lambda>acc c. acc * radix + (case digitValue c of None \<Rightarrow> 0 | Some d \<Rightarrow> d)) 0 ds"

text \<open>\<^verbatim>\<open>parseInt(s, radix)\<close> for a radix from 2 to 36: leading white space, a sign, for radix 16
  an optional \<^verbatim>\<open>0x\<close>, then the longest prefix of digits; \<open>NaN\<close> when there is no digit.\<close>

definition parseInt :: "string \<Rightarrow> nat \<Rightarrow> jsint" where
  "parseInt s radix =
     (let t = dropWhile isWhiteSpace s;
          neg = (t \<noteq> [] \<and> hd t = CHR ''-'');
          u = (if t \<noteq> [] \<and> (hd t = CHR ''-'' \<or> hd t = CHR ''+'') then tl t else t);
          w = (if radix = 16 \<and> (startsWith u ''0x'' \<or> startsWith u ''0X'') then drop 2 u else u);
          ds = takeWhile (isDigitOf radix) w
      in if ds = [] then NaN
         else Finite (if neg then - int (digitsValue radix ds) else int (digitsValue radix ds)))"

definition isDecimalDigit :: "char \<Rightarrow> bool" where
  "isDecimalDigit c = isDigitOf 10 c"

text \<open>\<^verbatim>\<open>String.fromCharCode\<close>: the code is taken modulo \<open>2^16\<close>, \<open>NaN\<close> counts as 0. A code
  unit from 256 on has no \<^typ>\<open>char\<close>: \<^const>\<open>char_of\<close> keeps its low eight bits, so the
  result is that of the source for codes below 256 only.\<close>

definition fromCharCode :: "jsint \<Rightarrow> string" where
  "fromCharCode n = (case n of NaN \<Rightarrow> [char_of (0::nat)] | Finite k \<Rightarrow> [char_of (nat (k mod 65536))])"

fun showNat :: "nat \<Rightarrow> string" where
  "showNat n =
     (if n < 10 then [''0123456789'' ! n] else showNat (n div 10) @ [''0123456789'' ! (n mod 10)])"

declare showNat.simps [simp del]

text \<open>\<^verbatim>\<open>String(n)\<close> for an integral number.\<close>

definition showNumber :: "jsint \<Rightarrow> string" where
  "showNumber n =
     (case n of NaN \<Rightarrow> ''NaN''
      | Finite k \<Rightarrow> (if k < 0 then ''-'' @ showNat (nat (- k)) else showNat (nat k)))"

text \<open>
  The names of the members of \<^verbatim>\<open>Object.prototype\<close>. Every object made by \<^verbatim>\<open>{}\<close> or \<^verbatim>\<open>[]\<close>
  has them, by inheritance: \<^verbatim>\<open>key in obj\<close> is true for them and \<^verbatim>\<open>obj[key]\<close> is the member.
  Under \<^verbatim>\<open>__proto__\<close> the member is an accessor that gives the prototype of the object, the
  other eleven are functions.
\<close>

definition objectPrototypeKeys :: "string list" where
  "objectPrototypeKeys =
     [''constructor'', ''__defineGetter__'', ''__defineSetter__'', ''hasOwnProperty'',
      ''__lookupGetter__'', ''__lookupSetter__'', ''isPrototypeOf'', ''propertyIsEnumerable'',
      ''toString'', ''valueOf'', ''__proto__'', ''toLocaleString'']"

text \<open>An array index: the decimal numeral, without leading zeros, of an integer below
  \<open>2^32 - 1\<close>. The keys of an object that are array indices come first when its keys are
  listed, in ascending order.\<close>

definition isArrayIndex :: "string \<Rightarrow> bool" where
  "isArrayIndex s =
     (s \<noteq> [] \<and> list_all isDecimalDigit s \<and> (if hd s = CHR ''0'' then length s = 1 else True)
      \<and> digitsValue 10 s < 2 ^ 32 - 1)"

section \<open>Symbolic expressions and the shape matcher\<close>

text \<open>\<^verbatim>\<open>type SExpr = string | SExprList\<close>: an atom or an ordered list.\<close>

datatype SExpr = Atom string | SList "SExpr list"

datatype SExprPattern =
    PLit string
  | PName string
  | PGroup string
  | PExpr string
  | PList "SExprPattern list"

text \<open>
  Modelled from the spec: \<^verbatim>\<open>matchSExpr\<close> of \<^verbatim>\<open>src/util.ts\<close>, which is not among the
  sources. The spec describes it as a declarative shape-matcher that extracts named captures
  from a tree against a template; the decoder uses four capture kinds. A literal matches the
  same atom, \<^verbatim>\<open>{name}\<close> captures an atom, \<^verbatim>\<open>{group}\<close> captures a list, \<^verbatim>\<open>{expr}\<close> captures
  any expression, and a list template matches a list of the same length element by element.
  The result is the object of captures, or nothing (\<^verbatim>\<open>null\<close>).
\<close>

fun matchSExpr :: "SExpr \<Rightarrow> SExprPattern \<Rightarrow> (string \<times> SExpr) list option"
  and matchSExprs :: "SExpr list \<Rightarrow> SExprPattern list \<Rightarrow> (string \<times> SExpr) list option" where
  "matchSExpr e (PLit s) = (if e = Atom s then Some [] else None)"
| "matchSExpr e (PName n) = (case e of Atom a \<Rightarrow> Some [(n, e)] | SList es \<Rightarrow> None)"
| "matchSExpr e (PGroup n) = (case e of Atom a \<Rightarrow> None | SList es \<Rightarrow> Some [(n, e)])"
| "matchSExpr e (PExpr n) = Some [(n, e)]"
| "matchSExpr e (PList ps) =
     (case e of Atom a \<Rightarrow> None
      | SList es \<Rightarrow> if length es \<noteq> length ps then None else matchSExprs es ps)"
| "matchSExprs es [] = Some []"
| "matchSExprs es (p # ps) =
     (case es of [] \<Rightarrow> None
      | e # es' \<Rightarrow>
          (case matchSExpr e p of None \<Rightarrow> None
           | Some b \<Rightarrow> (case matchSExprs es' ps of None \<Rightarrow> None | Some bs \<Rightarrow> Some (b @ bs))))"

text \<open>Reading a capture: \<^verbatim>\<open>m.body\<close>, and \<^verbatim>\<open>m.name as string\<close>.\<close>

definition capture :: "(string \<times> SExpr) list \<Rightarrow> string \<Rightarrow> SExpr" where
  "capture b k = (case map_of b k of Some e \<Rightarrow> e | None \<Rightarrow> Atom ''undefined'')"

definition captureName :: "(string \<times> SExpr) list \<Rightarrow> string \<Rightarrow> string" where
  "captureName b k = (case capture b k of Atom a \<Rightarrow> a | SList es \<Rightarrow> ''undefined'')"

text \<open>\<^verbatim>\<open>Array.prototype.toString\<close> on a nested array of strings: the atoms, joined by commas.\<close>

fun toString :: "SExpr \<Rightarrow> string" where
  "toString (Atom a) = a"
| "toString (SList es) = intercalate '','' (map toString es)"

section \<open>String literals\<close>

text \<open>\<^verbatim>\<open>vchars.replace(/\\x(\d\d)/g, (m, c) => String.fromCharCode(parseInt(c, 16)))\<close>:
  scanning from the left, a backslash, an \<open>x\<close> and two decimal digits are replaced by the
  character whose code the two digits give in base 16.\<close>

fun replaceEscapes :: "string \<Rightarrow> string" where
  "replaceEscapes (a # b # c # d # rest) =
     (if a = backslash \<and> b = CHR ''x'' \<and> isDecimalDigit c \<and> isDecimalDigit d
      then fromCharCode (parseInt [c, d] 16) @ replaceEscapes rest
      else a # replaceEscapes (b # c # d # rest))"
| "replaceEscapes s = s"

fun parseCharCode :: "SExpr \<Rightarrow> jsint option" where
  "parseCharCode (Atom v) = (case parseInt v 10 of NaN \<Rightarrow> None | Finite k \<Rightarrow> Some (Finite k))"
| "parseCharCode (SList [tag, Atom charLit]) =
     (if tag = Atom ''char'' then
        (if startsWith charLit ''#x'' then Some (parseInt (drop 2 charLit) 16)
         else if startsWith charLit ''#b'' then Some (parseInt (drop 2 charLit) 2)
         else None)
      else None)"
| "parseCharCode (SList es) = None"

fun parseStringValue :: "SExpr \<Rightarrow> string option"
  and parseStringParts :: "SExpr list \<Rightarrow> string \<Rightarrow> string option" where
  "parseStringValue (Atom v) =
     (if startsWith v [dquote] \<and> endsWith v [dquote]
      then Some (replaceEscapes (substr v 1 (int (length v) - 2)))
      else if v = [dquote, dquote] then Some []
      else None)"
| "parseStringValue (SList []) = None"
| "parseStringValue (SList (opr # args)) =
     (if opr = Atom ''str.++'' then parseStringParts args []
      else if opr = Atom ''seq.unit'' then
        (case args of
           [a] \<Rightarrow> (case parseCharCode a of None \<Rightarrow> None | Some charCode \<Rightarrow> Some (fromCharCode charCode))
         | _ \<Rightarrow> None)
      else if opr = Atom ''str.from_code'' then
        (case args of
           [a] \<Rightarrow> (case parseCharCode a of None \<Rightarrow> None | Some charCode \<Rightarrow> Some (fromCharCode charCode))
         | _ \<Rightarrow> None)
      else if opr = Atom ''str.at'' then None
      else None)"
| "parseStringParts [] result = Some result"
| "parseStringParts (p # ps) result =
     (case parseStringValue p of None \<Rightarrow> None
      | Some part \<Rightarrow> parseStringParts ps (result @ part))"

section \<open>Options, errors, values\<close>

text \<open>\<^verbatim>\<open>src/options.ts\<close>: the options record and its defaults.\<close>

datatype LogFormat = simple | colored | html

record Options =
  filename :: string
  z3path :: string
  remote :: bool
  z3url :: string
  qi :: bool
  timeout :: int
  logformat :: LogFormat
  quiet :: bool
  verbose :: bool
  logsmt :: string
  maxInterpreterSteps :: int

definition defaultOptions :: Options where
  "defaultOptions =
     \<lparr> filename = [], z3path = ''z3'', remote = False, z3url = ''/z3'', qi = True,
       timeout = 5, logformat = colored, quiet = True, verbose = False,
       logsmt = ''/tmp/vc.smt'', maxInterpreterSteps = 10000 \<rparr>"

text \<open>
  What the decoder reads from outside itself: the options singleton (\<^verbatim>\<open>getOptions()\<close>) and
  the arithmetic of doubles. A number of the decoded program is a value of the type
  parameter \<open>'n\<close>; \<^verbatim>\<open>parseFloat\<close> gives nothing where JavaScript gives \<open>NaN\<close>, and
  \<open>numTruthy\<close> is the number as a condition (false for zero and for \<open>NaN\<close>).
\<close>

record 'n Host =
  getOptions :: Options
  parseFloat :: "string \<Rightarrow> 'n option"
  fromInt :: "int \<Rightarrow> 'n"
  numNeg :: "'n \<Rightarrow> 'n"
  numDiv :: "'n \<Rightarrow> 'n \<Rightarrow> 'n"
  numMul :: "'n \<Rightarrow> 'n \<Rightarrow> 'n"
  numAdd :: "'n \<Rightarrow> 'n \<Rightarrow> 'n"
  numFloor :: "'n \<Rightarrow> 'n"
  numTruthy :: "'n \<Rightarrow> bool"

text \<open>
  Modelled from the spec: the message type of \<^verbatim>\<open>src/message.ts\<close>, not among the sources. The
  spec describes the payload as a status flag, an error-kind tag, a source location (file
  name, start and end positions) and a description; these are the fields \<^verbatim>\<open>modelError\<close> sets.
\<close>

record Position =
  line :: nat
  column :: nat

record SourceLocation =
  locFile :: string
  locStart :: Position
  locEnd :: Position

record Message =
  status :: string
  type :: string
  loc :: SourceLocation
  description :: string

text \<open>What a call can throw: the decoder's own exception, or one of the language's.\<close>

datatype error = MessageException Message | TypeError | RangeError

definition modelError :: "'n Host \<Rightarrow> string \<Rightarrow> error" where
  "modelError js smt =
     MessageException
       \<lparr> status = ''error'', type = ''unrecognized-model'',
         loc = \<lparr> locFile = filename (getOptions js),
                 locStart = \<lparr> line = 0, column = 0 \<rparr>, locEnd = \<lparr> line = 0, column = 0 \<rparr> \<rparr>,
         description = ''cannot parse smt '' @ smt \<rparr>"

text \<open>
  Modelled from the spec: the declarations of \<^verbatim>\<open>Syntax\<close> in \<^verbatim>\<open>src/javascript.ts\<close>, which is not
  among the sources. The spec calls them source-level syntax; the nodes here are the object
  literals that \<^verbatim>\<open>src/model.ts\<close> builds, with the source locations left out (they are all
  \<^verbatim>\<open>nullLoc()\<close>). \<open>NoExpression\<close> is the value \<^verbatim>\<open>undefined\<close> in the place of an expression.
\<close>

datatype 'n LiteralValue = LitNum 'n | LitBool bool | LitStr string | LitNull | LitUndefined

datatype 'n Expression =
    Literal "'n LiteralValue"
  | Identifier string
  | BinaryExpression string "'n Expression" "'n Expression"
  | LogicalExpression string "'n Expression" "'n Expression"
  | ObjectExpression "(string \<times> 'n Expression) list"
  | NewExpression "'n Expression" "'n Expression list"
  | ArrayExpression "'n Expression list"
  | FunctionExpression "string option" "'n Expression list" "'n Expression list"
      "'n Expression list" "'n Statement" "string list"
  | NoExpression
and 'n Statement =
    IfStatement "'n Expression" "'n Statement" "'n Statement"
  | ReturnStatement "'n Expression"
  | BlockStatement "'n Statement list"

text \<open>Modelled from the spec: \<^verbatim>\<open>id(name)\<close> of \<^verbatim>\<open>src/javascript.ts\<close>, not among the sources; it
  makes the identifier node for a name.\<close>

definition id_node :: "string \<Rightarrow> 'n Expression" where
  "id_node x = Identifier x"

text \<open>
  The tagged objects of the decoder. TypeScript types them twice, as \<^verbatim>\<open>JSVal\<close> (the first
  nine tags) and as \<^verbatim>\<open>LazyValue\<close> (scalars, \<^verbatim>\<open>obj\<close>, \<^verbatim>\<open>obj-cls\<close> and the three references);
  at run time they are one family of objects, told apart by the field \<^verbatim>\<open>type\<close>.
\<close>

datatype 'n Value =
    Num 'n
  | Bool bool
  | Str string
  | Null
  | Undefined
  | Fun "'n Expression"
  | Obj "(string \<times> 'n Value) list"
  | ObjCls string "'n Value list"
  | Arr "'n Value list"
  | ArrRef string
  | ObjRef string
  | FunRef string
  | Loc string

fun typeTag :: "'n Value \<Rightarrow> string" where
  "typeTag (Num n) = ''num''"
| "typeTag (Bool b) = ''bool''"
| "typeTag (Str s) = ''str''"
| "typeTag Null = ''null''"
| "typeTag Undefined = ''undefined''"
| "typeTag (Fun f) = ''fun''"
| "typeTag (Obj kvs) = ''obj''"
| "typeTag (ObjCls c args) = ''obj-cls''"
| "typeTag (Arr elems) = ''arr''"
| "typeTag (ArrRef n) = ''arr-ref''"
| "typeTag (ObjRef n) = ''obj-ref''"
| "typeTag (FunRef n) = ''fun-ref''"
| "typeTag (Loc n) = ''loc''"

text \<open>All tags that occur in a value tree, the root included.\<close>

fun tagsOf :: "'n Value \<Rightarrow> string list" where
  "tagsOf (Obj kvs) = ''obj'' # concat (map (\<lambda>kv. tagsOf (snd kv)) kvs)"
| "tagsOf (ObjCls c args) = ''obj-cls'' # concat (map tagsOf args)"
| "tagsOf (Arr elems) = ''arr'' # concat (map tagsOf elems)"
| "tagsOf v = [typeTag v]"

definition concreteTags :: "string list" where
  "concreteTags =
     [''num'', ''bool'', ''str'', ''null'', ''undefined'', ''fun'', ''obj'', ''obj-cls'', ''arr'']"

definition referenceTags :: "string list" where
  "referenceTags = [''arr-ref'', ''obj-ref'', ''fun-ref'', ''loc'']"

text \<open>The type \<^verbatim>\<open>JSVal\<close>: a tree of the nine concrete tags.\<close>

fun isJSVal :: "'n Value \<Rightarrow> bool" where
  "isJSVal (Obj kvs) = list_all (\<lambda>kv. isJSVal (snd kv)) kvs"
| "isJSVal (ObjCls c args) = list_all isJSVal args"
| "isJSVal (Arr elems) = list_all isJSVal elems"
| "isJSVal (ArrRef n) = False"
| "isJSVal (ObjRef n) = False"
| "isJSVal (FunRef n) = False"
| "isJSVal (Loc n) = False"
| "isJSVal v = True"

text \<open>The type \<^verbatim>\<open>LazyValue\<close>: scalars, an inline object of concrete values, a class
  instance of lazy arguments, or one of the three references.\<close>

fun isLazyValue :: "'n Value \<Rightarrow> bool" where
  "isLazyValue (Num n) = True"
| "isLazyValue (Bool b) = True"
| "isLazyValue (Str s) = True"
| "isLazyValue Null = True"
| "isLazyValue Undefined = True"
| "isLazyValue (Obj kvs) = list_all (\<lambda>kv. isJSVal (snd kv)) kvs"
| "isLazyValue (ObjCls c args) = list_all isLazyValue args"
| "isLazyValue (ArrRef n) = True"
| "isLazyValue (ObjRef n) = True"
| "isLazyValue (FunRef n) = True"
| "isLazyValue v = False"

text \<open>
  \<^verbatim>\<open>obj[key] = v\<close> with the keys kept in the order of their first assignment. It is used for
  the blocks of a function, of which \<^verbatim>\<open>hydrate\<close> reads the number of keys and, when there is
  one key, that key; the order in which \<^verbatim>\<open>Object.keys\<close> would list several keys is not read.
\<close>

fun assign :: "('k \<times> 'a) list \<Rightarrow> 'k \<Rightarrow> 'a \<Rightarrow> ('k \<times> 'a) list" where
  "assign [] k v = [(k, v)]"
| "assign ((k', v') # kvs) k v = (if k' = k then (k, v) # kvs else (k', v') # assign kvs k v)"

text \<open>
  \<^verbatim>\<open>obj[key] = v\<close> on an object made by \<^verbatim>\<open>{}\<close>, with its own keys in the order in which
  \<^verbatim>\<open>Object.keys\<close> lists them: array indices first, ascending, then the other keys in the
  order of their first assignment. An assignment to \<^verbatim>\<open>__proto__\<close> makes no own key.
\<close>

fun insertIndex :: "(string \<times> 'a) list \<Rightarrow> string \<Rightarrow> 'a \<Rightarrow> (string \<times> 'a) list" where
  "insertIndex [] k v = [(k, v)]"
| "insertIndex ((k', v') # kvs) k v =
     (if isArrayIndex k' \<and> digitsValue 10 k' < digitsValue 10 k then (k', v') # insertIndex kvs k v
      else (k, v) # (k', v') # kvs)"

definition setProperty :: "(string \<times> 'a) list \<Rightarrow> string \<Rightarrow> 'a \<Rightarrow> (string \<times> 'a) list" where
  "setProperty obj key v =
     (if key = ''__proto__'' then obj
      else if key \<in> fst ` set obj then assign obj key v
      else if isArrayIndex key then insertIndex obj key v
      else obj @ [(key, v)])"

section \<open>Renderer to syntax\<close>

fun valueToJavaScript :: "'n Value \<Rightarrow> 'n Expression" where
  "valueToJavaScript (Num v) = Literal (LitNum v)"
| "valueToJavaScript (Bool v) = Literal (LitBool v)"
| "valueToJavaScript (Str v) = Literal (LitStr v)"
| "valueToJavaScript Null = Literal LitNull"
| "valueToJavaScript Undefined = Literal LitUndefined"
| "valueToJavaScript (Fun body) = body"
| "valueToJavaScript (Obj kvs) =
     ObjectExpression (map (\<lambda>kv. (fst kv, valueToJavaScript (snd kv))) kvs)"
| "valueToJavaScript (ObjCls cls args) = NewExpression (id_node cls) (map valueToJavaScript args)"
| "valueToJavaScript (Arr elems) = ArrayExpression (map valueToJavaScript elems)"
| "valueToJavaScript v = NoExpression"

section \<open>Scalars and lazy values\<close>

definition hexDigit :: "nat \<Rightarrow> char" where
  "hexDigit n = ''0123456789abcdef'' ! n"

text \<open>\<^verbatim>\<open>JSON.stringify\<close> on a string and on a nested array of strings.\<close>

definition jsonEscape :: "char \<Rightarrow> string" where
  "jsonEscape c =
     (let n = (of_char c :: nat) in
      if c = dquote then [backslash, dquote]
      else if c = backslash then [backslash, backslash]
      else if n = 8 then [backslash, CHR ''b'']
      else if n = 9 then [backslash, CHR ''t'']
      else if n = 10 then [backslash, CHR ''n'']
      else if n = 12 then [backslash, CHR ''f'']
      else if n = 13 then [backslash, CHR ''r'']
      else if n < 32 then [backslash, CHR ''u'', CHR ''0'', CHR ''0'', hexDigit (n div 16), hexDigit (n mod 16)]
      else [c])"

fun JSON_stringify :: "SExpr \<Rightarrow> string" where
  "JSON_stringify (Atom a) = [dquote] @ concat (map jsonEscape a) @ [dquote]"
| "JSON_stringify (SList es) = ''['' @ intercalate '','' (map JSON_stringify es) @ '']''"

text \<open>
  \<^verbatim>\<open>parseNum\<close>. The operator tests of the source are exclusive (each fixes the operator and
  the length of the list), so they are grouped here by the length of the list.
\<close>

fun parseNum :: "'n Host \<Rightarrow> SExpr \<Rightarrow> error + 'n" where
  "parseNum js (Atom v) =
     (case parseFloat js v of
        Some num \<Rightarrow> Inr num
      | None \<Rightarrow>
          (case (if startsWith v ''#x'' then parseInt (drop 2 v) 16 else NaN) of
             Finite hexNum \<Rightarrow> Inr (fromInt js hexNum)
           | NaN \<Rightarrow>
               (case (if startsWith v ''#b'' then parseInt (drop 2 v) 2 else NaN) of
                  Finite binNum \<Rightarrow> Inr (fromInt js binNum)
                | NaN \<Rightarrow> Inl (modelError js (''cannot parse number '' @ v)))))"
| "parseNum js (SList []) = Inl (modelError js (''cannot parse number '' @ toString (SList [])))"
| "parseNum js (SList [opr, a]) =
     (if opr = Atom ''-'' then
        (case parseNum js a of Inl e \<Rightarrow> Inl e | Inr num \<Rightarrow> Inr (numNeg js num))
      else if opr = Atom ''to_real'' then
        (case parseNum js a of Inl e \<Rightarrow> Inl e | Inr num \<Rightarrow> Inr num)
      else if opr = Atom ''to_int'' then
        (case parseNum js a of Inl e \<Rightarrow> Inl e | Inr num \<Rightarrow> Inr (numFloor js num))
      else Inl (modelError js (''cannot parse number expression '' @ JSON_stringify (SList [opr, a]))))"
| "parseNum js (SList [opr, a, b]) =
     (if opr = Atom ''/'' then
        (case parseNum js a of Inl e \<Rightarrow> Inl e
         | Inr n \<Rightarrow> (case parseNum js b of Inl e \<Rightarrow> Inl e | Inr d \<Rightarrow> Inr (numDiv js n d)))
      else if opr = Atom ''*'' then
        (case parseNum js a of Inl e \<Rightarrow> Inl e
         | Inr left \<Rightarrow> (case parseNum js b of Inl e \<Rightarrow> Inl e | Inr right \<Rightarrow> Inr (numMul js left right)))
      else if opr = Atom ''+'' then
        (case parseNum js a of Inl e \<Rightarrow> Inl e
         | Inr left \<Rightarrow> (case parseNum js b of Inl e \<Rightarrow> Inl e | Inr right \<Rightarrow> Inr (numAdd js left right)))
      else Inl (modelError js (''cannot parse number expression '' @ JSON_stringify (SList [opr, a, b]))))"
| "parseNum js (SList es) =
     Inl (modelError js (''cannot parse number expression '' @ JSON_stringify (SList es)))"

text \<open>\<^verbatim>\<open>tryParseSimpleValue\<close>: a scalar, or nothing (\<^verbatim>\<open>null\<close>); \<^verbatim>\<open>parseNum\<close> may still throw.\<close>

fun tryParseSimpleValue :: "'n Host \<Rightarrow> SExpr \<Rightarrow> error + 'n Value option" where
  "tryParseSimpleValue js (Atom s) =
     (if s = ''jsundefined'' then Inr (Some Undefined)
      else if s = ''jsnull'' then Inr (Some Null)
      else Inr None)"
| "tryParseSimpleValue js (SList []) = Inr None"
| "tryParseSimpleValue js (SList (SList t # rest)) = Inr None"
| "tryParseSimpleValue js (SList (Atom tag # rest)) =
     (if tag = ''jsbool'' then
        (case rest of
           [v] \<Rightarrow> (case v of Atom b \<Rightarrow> Inr (Some (Bool (b = ''true''))) | SList l \<Rightarrow> Inr None)
         | _ \<Rightarrow> Inr None)
      else if tag = ''jsint'' \<or> tag = ''jsreal'' then
        (case rest of
           [v] \<Rightarrow> (case parseNum js v of Inl e \<Rightarrow> Inl e | Inr num \<Rightarrow> Inr (Some (Num num)))
         | _ \<Rightarrow> Inr None)
      else if tag = ''jsstr'' then
        (case rest of
           [v] \<Rightarrow> (case parseStringValue v of None \<Rightarrow> Inr None | Some strValue \<Rightarrow> Inr (Some (Str strValue)))
         | _ \<Rightarrow> Inr None)
      else Inr None)"

text \<open>\<^verbatim>\<open>parseLazyValue\<close>; \<open>parseLazyValues\<close> is its \<^verbatim>\<open>s.slice(1).map(...)\<close>, which stops at the
  first argument that throws.\<close>

fun parseLazyValue :: "'n Host \<Rightarrow> SExpr \<Rightarrow> error + 'n Value"
  and parseLazyValues :: "'n Host \<Rightarrow> SExpr list \<Rightarrow> error + 'n Value list" where
  "parseLazyValue js (Atom s) =
     (if s = ''jsundefined'' then Inr Undefined
      else if s = ''jsnull'' then Inr Null
      else if startsWith s ''jsobj_'' then Inr (ObjCls (drop 6 s) [])
      else if startsWith s ''Arr!'' then Inr (ArrRef s)
      else Inl (modelError js s))"
| "parseLazyValue js (SList []) = Inl (modelError js (toString (SList [])))"
| "parseLazyValue js (SList (SList t # rest)) = Inl (modelError js (toString (SList t)))"
| "parseLazyValue js (SList (Atom tag # rest)) =
     (let s = SList (Atom tag # rest) in
      if tag = ''jsbool'' then
        (case rest of
           [v] \<Rightarrow> (case v of Atom b \<Rightarrow> Inr (Bool (b = ''true''))
                   | SList l \<Rightarrow> Inl (modelError js (toString s)))
         | _ \<Rightarrow> Inl (modelError js (toString s)))
      else if tag = ''jsint'' \<or> tag = ''jsreal'' then
        (case rest of
           [v] \<Rightarrow> (case parseNum js v of Inl e \<Rightarrow> Inl e | Inr num \<Rightarrow> Inr (Num num))
         | _ \<Rightarrow> Inl (modelError js (toString s)))
      else if tag = ''jsstr'' then
        (case rest of
           [v] \<Rightarrow> (case parseStringValue v of
                     None \<Rightarrow> Inl (modelError js ''cannot parse string value'')
                   | Some strValue \<Rightarrow> Inr (Str strValue))
         | _ \<Rightarrow> Inl (modelError js (toString s)))
      else if tag = ''jsfun'' then
        (case rest of
           [v] \<Rightarrow> (case v of Atom name \<Rightarrow> Inr (FunRef name)
                   | SList l \<Rightarrow> Inl (modelError js (toString s)))
         | _ \<Rightarrow> Inl (modelError js (toString s)))
      else if tag = ''jsobj'' then
        (case rest of
           [v] \<Rightarrow> (case v of Atom name \<Rightarrow> Inr (ObjRef name)
                   | SList l \<Rightarrow> Inl (modelError js (toString s)))
         | _ \<Rightarrow> Inl (modelError js (toString s)))
      else if tag = ''jsobj_Array'' then
        (case rest of
           [v] \<Rightarrow> (case v of Atom name \<Rightarrow> Inr (ArrRef name)
                   | SList l \<Rightarrow> Inl (modelError js (toString s)))
         | _ \<Rightarrow> Inl (modelError js (toString s)))
      else if startsWith tag ''jsobj_'' then
        (case parseLazyValues js rest of Inl e \<Rightarrow> Inl e | Inr args \<Rightarrow> Inr (ObjCls (drop 6 tag) args))
      else Inl (modelError js tag))"
| "parseLazyValues js [] = Inr []"
| "parseLazyValues js (a # as) =
     (case parseLazyValue js a of Inl e \<Rightarrow> Inl e
      | Inr v \<Rightarrow> (case parseLazyValues js as of Inl e \<Rightarrow> Inl e | Inr vs \<Rightarrow> Inr (v # vs)))"

section \<open>The model and its tables\<close>

text \<open>
  The fields of \<^verbatim>\<open>class Model\<close>. A table that is \<^verbatim>\<open>null\<close> until its definition is read is an
  option; a closure over a reference reads only the reference's name, so it is a function of
  that name. A heap mapping is called with whatever \<^verbatim>\<open>this.locs[...]\<close> gave, so it is a
  function of the field \<^verbatim>\<open>name\<close> of that value, which may be absent. \<^verbatim>\<open>locs\<close> keeps the name
  of each \<^verbatim>\<open>Loc\<close>. \<^verbatim>\<open>heaps\<close> and \<^verbatim>\<open>funDefaults\<close> are arrays written at whatever \<^verbatim>\<open>parseInt\<close>
  returned; a function's blocks are an array whose keys matter (\<^verbatim>\<open>Object.keys(funcBlocks)\<close>),
  kept in order. A \<^verbatim>\<open>LazyFun\<close> is its list of branches.

  \<^verbatim>\<open>funs\<close> gives, for a function name, the blocks that \<^verbatim>\<open>this.funs[name]\<close> reaches. For a name
  that \<^verbatim>\<open>Object.prototype\<close> has, \<^verbatim>\<open>funcName in this.funs\<close> holds by inheritance and no array is
  made: the entries are written on the inherited member, an object that all instances of
  the process share, and are read back from it. The empty table is that of a process in
  which those members have no entries yet.
\<close>

type_synonym 'n LazyFun = "('n Value list \<times> 'n Value) list"

record 'n Model =
  arrLengths :: "(string \<Rightarrow> jsint) option"
  arrElems :: "(string \<Rightarrow> int \<Rightarrow> 'n Value) option"
  objProperties :: "(string \<Rightarrow> string) option"
  objPropertyMappings :: "string \<rightharpoonup> string list"
  objFields :: "(string \<Rightarrow> string \<Rightarrow> 'n Value) option"
  heapMappings :: "string \<rightharpoonup> (string option \<Rightarrow> 'n Value)"
  vars :: "string \<rightharpoonup> 'n Value"
  locs :: "string \<rightharpoonup> string"
  heaps :: "jsint \<rightharpoonup> string"
  funs :: "string \<rightharpoonup> (jsint \<times> 'n LazyFun) list"
  funDefaults :: "jsint \<rightharpoonup> 'n Value"

definition emptyModel :: "'n Model" where
  "emptyModel =
     \<lparr> arrLengths = None, arrElems = None, objProperties = None,
       objPropertyMappings = Map.empty, objFields = None, heapMappings = Map.empty,
       vars = Map.empty, locs = Map.empty, heaps = Map.empty, funs = Map.empty,
       funDefaults = Map.empty \<rparr>"

text \<open>\<^verbatim>\<open>new Set([...])\<close>: the elements in the order of their first occurrence.\<close>

definition newSet :: "string list \<Rightarrow> string list" where
  "newSet xs = foldl (\<lambda>acc x. if x \<in> set acc then acc else acc @ [x]) [] xs"

text \<open>A capture of a list template is a proper part of the matched expression.\<close>

lemma matchSExpr_captures:
  "matchSExpr e p = Some b \<Longrightarrow> (k, x) \<in> set b \<Longrightarrow> size x \<le> size e"
  "matchSExprs es ps = Some b \<Longrightarrow> (k, x) \<in> set b \<Longrightarrow> \<exists>e \<in> set es. size x \<le> size e"
proof (induction e p and es ps arbitrary: b and b rule: matchSExpr_matchSExprs.induct)
  case (5 e ps)
  then obtain es where e: "e = SList es" and len: "length es = length ps"
    and m: "matchSExprs es ps = Some b"
    by (auto split: SExpr.splits if_splits)
  from len have "\<not> length es \<noteq> length ps" by simp
  from 5(1)[OF e this m 5(3)] obtain y where "y \<in> set es" "size x \<le> size y"
    by blast
  moreover have "size y \<le> size_list size es"
    using \<open>y \<in> set es\<close> by (simp add: size_list_estimation')
  ultimately show ?case using e by simp
next
  case (7 es p ps)
  then show ?case
    by (fastforce split: list.splits option.splits)
qed (auto split: if_splits SExpr.splits)

lemma capture_size [termination_simp]:
  assumes "matchSExpr e (PList ps) = Some b"
  shows "size (capture b k) < size e"
proof -
  from assms obtain es where e: "e = SList es" and m: "matchSExprs es ps = Some b"
    by (auto split: SExpr.splits if_splits)
  show ?thesis
  proof (cases "map_of b k")
    case None
    then show ?thesis using e by (simp add: capture_def)
  next
    case (Some x)
    then have "(k, x) \<in> set b" by (rule map_of_SomeD)
    with matchSExpr_captures(2)[OF m] obtain y where "y \<in> set es" "size x \<le> size y"
      by blast
    moreover have "size y \<le> size_list size es"
      using \<open>y \<in> set es\<close> by (simp add: size_list_estimation')
    ultimately show ?thesis using e Some by (simp add: capture_def)
  qed
qed

section \<open>Conditional chains\<close>

fun parseHeap :: "'n Host \<Rightarrow> SExpr \<Rightarrow> error + string" where
  "parseHeap js smt =
     (case matchSExpr smt (PList [PLit ''_'', PLit ''as-array'', PName ''name'']) of
        None \<Rightarrow> Inl (modelError js ''expected (_ as-array $name)'')
      | Some m \<Rightarrow> Inr (captureName m ''name''))"

function parseHeapMapping :: "'n Host \<Rightarrow> SExpr \<Rightarrow> error + (string option \<Rightarrow> 'n Value)" where
  "parseHeapMapping js smt =
     (case matchSExpr smt
             (PList [PLit ''ite'', PList [PLit ''='', PLit ''x!0'', PName ''loc''],
                     PExpr ''then'', PExpr ''els'']) of
        Some iteMatch \<Rightarrow>
          (case parseHeapMapping js (capture iteMatch ''then'') of
             Inl e \<Rightarrow> Inl e
           | Inr thn \<Rightarrow>
               (case parseHeapMapping js (capture iteMatch ''els'') of
                  Inl e \<Rightarrow> Inl e
                | Inr els \<Rightarrow>
                    Inr (\<lambda>loc. if loc = Some (captureName iteMatch ''loc'') then thn loc
                                else els loc)))
      | None \<Rightarrow>
          (case parseLazyValue js smt of Inl e \<Rightarrow> Inl e | Inr val \<Rightarrow> Inr (\<lambda>loc. val)))"
  by pat_completeness auto
termination
  by (relation "measure (\<lambda>(js, smt). size smt)") (auto simp: capture_size)

declare parseHeapMapping.simps [simp del]

function parseArrayLengths :: "'n Host \<Rightarrow> SExpr \<Rightarrow> error + (string \<Rightarrow> jsint)" where
  "parseArrayLengths js smt =
     (case matchSExpr smt
             (PList [PLit ''ite'', PList [PLit ''='', PLit ''x!0'', PName ''arr''],
                     PExpr ''then'', PExpr ''els'']) of
        Some iteMatch \<Rightarrow>
          (case parseArrayLengths js (capture iteMatch ''then'') of
             Inl e \<Rightarrow> Inl e
           | Inr thn \<Rightarrow>
               (case parseArrayLengths js (capture iteMatch ''els'') of
                  Inl e \<Rightarrow> Inl e
                | Inr els \<Rightarrow>
                    Inr (\<lambda>arrRef. if arrRef = captureName iteMatch ''arr'' then thn arrRef
                                   else els arrRef)))
      | None \<Rightarrow>
          (case smt of
             SList l \<Rightarrow> Inl (modelError js ''expected num'')
           | Atom a \<Rightarrow> Inr (\<lambda>arrRef. parseInt a 10)))"
  by pat_completeness auto
termination
  by (relation "measure (\<lambda>(js, smt). size smt)") (auto simp: capture_size)

declare parseArrayLengths.simps [simp del]

function parseArrayElems :: "'n Host \<Rightarrow> SExpr \<Rightarrow> error + (string \<Rightarrow> int \<Rightarrow> 'n Value)" where
  "parseArrayElems js smt =
     (case matchSExpr smt
             (PList [PLit ''ite'',
                     PList [PLit ''and'', PList [PLit ''='', PLit ''x!0'', PName ''arr''],
                            PList [PLit ''='', PLit ''x!1'', PName ''i'']],
                     PExpr ''then'', PExpr ''els'']) of
        Some iteMatch \<Rightarrow>
          (case parseArrayElems js (capture iteMatch ''then'') of
             Inl e \<Rightarrow> Inl e
           | Inr thn \<Rightarrow>
               (case parseArrayElems js (capture iteMatch ''els'') of
                  Inl e \<Rightarrow> Inl e
                | Inr els \<Rightarrow>
                    (let arr = captureName iteMatch ''arr'';
                         i = parseInt (captureName iteMatch ''i'') 10
                     in Inr (\<lambda>arrRef idx. if arrRef = arr \<and> Finite idx = i then thn arrRef idx
                                           else els arrRef idx))))
      | None \<Rightarrow>
          (case parseLazyValue js smt of Inl e \<Rightarrow> Inl e | Inr val \<Rightarrow> Inr (\<lambda>arrRef idx. val)))"
  by pat_completeness auto
termination
  by (relation "measure (\<lambda>(js, smt). size smt)") (auto simp: capture_size)

declare parseArrayElems.simps [simp del]

function parseObjectProperties :: "'n Host \<Rightarrow> SExpr \<Rightarrow> error + (string \<Rightarrow> string)" where
  "parseObjectProperties js smt =
     (case matchSExpr smt
             (PList [PLit ''ite'', PList [PLit ''='', PLit ''x!0'', PName ''obj''],
                     PExpr ''then'', PExpr ''els'']) of
        Some iteMatch \<Rightarrow>
          (case parseObjectProperties js (capture iteMatch ''then'') of
             Inl e \<Rightarrow> Inl e
           | Inr thn \<Rightarrow>
               (case parseObjectProperties js (capture iteMatch ''els'') of
                  Inl e \<Rightarrow> Inl e
                | Inr els \<Rightarrow>
                    Inr (\<lambda>objRef. if objRef = captureName iteMatch ''obj'' then thn objRef
                                   else els objRef)))
      | None \<Rightarrow>
          (case matchSExpr smt (PList [PLit ''_'', PLit ''as-array'', PName ''name'']) of
             None \<Rightarrow> Inl (modelError js ''expected (_ as-array $name)'')
           | Some asArrayMatch \<Rightarrow> Inr (\<lambda>objRef. captureName asArrayMatch ''name'')))"
  by pat_completeness auto
termination
  by (relation "measure (\<lambda>(js, smt). size smt)") (auto simp: capture_size)

declare parseObjectProperties.simps [simp del]

text \<open>The text of a quoted atom, or a decoded string expression: the key of a property or field.\<close>

definition keyString :: "SExpr \<Rightarrow> string option" where
  "keyString prop =
     (case prop of
        Atom p \<Rightarrow>
          (if length p \<ge> 2 \<and> hd p = dquote \<and> last p = dquote
           then Some (substr p 1 (int (length p) - 2)) else None)
      | SList l \<Rightarrow> parseStringValue prop)"

function parsePropertyMapping :: "'n Host \<Rightarrow> SExpr \<Rightarrow> error + string list option" where
  "parsePropertyMapping js smt =
     (case matchSExpr smt
             (PList [PLit ''ite'', PList [PLit ''='', PLit ''x!0'', PName ''prop''],
                     PExpr ''then'', PExpr ''els'']) of
        Some iteMatch \<Rightarrow>
          (case parsePropertyMapping js (capture iteMatch ''then'') of
             Inl e \<Rightarrow> Inl e
           | Inr thn \<Rightarrow>
               (case parsePropertyMapping js (capture iteMatch ''els'') of
                  Inl e \<Rightarrow> Inl e
                | Inr els \<Rightarrow>
                    (case keyString (capture iteMatch ''prop'') of
                       None \<Rightarrow> Inl (modelError js ''expected string in property mapping'')
                     | Some propStr \<Rightarrow>
                         (case thn of
                            None \<Rightarrow> Inr els
                          | Some t \<Rightarrow>
                              (case els of
                                 None \<Rightarrow> Inr (Some (newSet (propStr # t)))
                               | Some el \<Rightarrow> Inr (Some (newSet (propStr # t @ el))))))))
      | None \<Rightarrow>
          (if smt = Atom ''true'' then Inr (Some [])
           else if smt = Atom ''false'' then Inr None
           else Inl (modelError js ''expected (true)'')))"
  by pat_completeness auto
termination
  by (relation "measure (\<lambda>(js, smt). size smt)") (auto simp: capture_size)

declare parsePropertyMapping.simps [simp del]

function parseObjectFields :: "'n Host \<Rightarrow> SExpr \<Rightarrow> error + (string \<Rightarrow> string \<Rightarrow> 'n Value)" where
  "parseObjectFields js smt =
     (case matchSExpr smt
             (PList [PLit ''ite'',
                     PList [PLit ''and'', PList [PLit ''='', PLit ''x!0'', PName ''obj''],
                            PList [PLit ''='', PLit ''x!1'', PName ''s'']],
                     PExpr ''then'', PExpr ''els'']) of
        Some iteMatch \<Rightarrow>
          (case parseObjectFields js (capture iteMatch ''then'') of
             Inl e \<Rightarrow> Inl e
           | Inr thn \<Rightarrow>
               (case parseObjectFields js (capture iteMatch ''els'') of
                  Inl e \<Rightarrow> Inl e
                | Inr els \<Rightarrow>
                    (case keyString (capture iteMatch ''s'') of
                       None \<Rightarrow> Inl (modelError js ''expected string in object field'')
                     | Some strValue \<Rightarrow>
                         Inr (\<lambda>objRef prop.
                                if objRef = captureName iteMatch ''obj'' \<and> prop = strValue
                                then thn objRef prop else els objRef prop))))
      | None \<Rightarrow>
          (case parseLazyValue js smt of Inl e \<Rightarrow> Inl e | Inr val \<Rightarrow> Inr (\<lambda>objRef prop. val)))"
  by pat_completeness auto
termination
  by (relation "measure (\<lambda>(js, smt). size smt)") (auto simp: capture_size)

declare parseObjectFields.simps [simp del]

section \<open>Function tables\<close>

text \<open>The templates of \<^verbatim>\<open>parseFunctions\<close>: a branch of the application table, the condition
  that names the function, and the condition on the argument \<^verbatim>\<open>x!k\<close>.\<close>

definition appShape :: SExprPattern where
  "appShape = PList [PLit ''ite'', PGroup ''cond'', PExpr ''then'', PExpr ''els'']"

definition funcShape :: SExprPattern where
  "funcShape = PList [PLit ''='', PLit ''x!0'', PList [PLit ''jsfun'', PName ''func'']]"

text \<open>
  The loop of \<^verbatim>\<open>parseFunctions\<close> over the argument conditions \<^verbatim>\<open>condList[4..]\<close>: the
  conditions left, the index \<^verbatim>\<open>idx\<close> of the first of them, and \<^verbatim>\<open>fullCond\<close> so far. It throws
  at a condition that is not \<^verbatim>\<open>(= x!(idx-1) val)\<close>, and gives nothing (the \<^verbatim>\<open>return\<close> that
  drops the branch) at a value that is not a simple one.
\<close>

definition argShape :: "nat \<Rightarrow> SExprPattern" where
  "argShape k = PList [PLit ''='', PLit (''x!'' @ showNat k), PExpr ''val'']"

fun argConds :: "'n Host \<Rightarrow> SExpr list \<Rightarrow> nat \<Rightarrow> 'n Value list \<Rightarrow> error + 'n Value list option" where
  "argConds js [] idx fullCond = Inr (Some fullCond)"
| "argConds js (c # cs) idx fullCond =
     (case matchSExpr c (argShape (idx - 1)) of
        None \<Rightarrow> Inl (modelError js ''expected (= x!idx $val)'')
      | Some condMatch \<Rightarrow>
          (case tryParseSimpleValue js (capture condMatch ''val'') of
             Inl e \<Rightarrow> Inl e
           | Inr None \<Rightarrow> Inr None
           | Inr (Some matchVal) \<Rightarrow> argConds js cs (idx + 1) (fullCond @ [matchVal])))"

text \<open>
  The part of \<^verbatim>\<open>parseFunctions\<close> after the recursive call: what is done with the current
  branch, given its condition list and its \<^verbatim>\<open>then\<close> expression. The blocks of the function
  and the entry for \<^verbatim>\<open>numArgs\<close> are created before the conditions are read.
\<close>

definition recordBranch ::
  "'n Host \<Rightarrow> SExpr list \<Rightarrow> SExpr \<Rightarrow> jsint \<Rightarrow> 'n Model \<Rightarrow> error + 'n Model" where
  "recordBranch js condList thn numArgs m =
     (if length condList < 3 \<or> condList ! 0 \<noteq> Atom ''and'' then Inl (modelError js ''expected (and ...)'')
      else
        (case matchSExpr (condList ! 1) funcShape of
           None \<Rightarrow> Inr m
         | Some funcMatch \<Rightarrow>
             (let funcName = captureName funcMatch ''func'';
                  funcBlocks = (case funs m funcName of Some blocks \<Rightarrow> blocks | None \<Rightarrow> []);
                  fn = (case map_of funcBlocks numArgs of Some f \<Rightarrow> f | None \<Rightarrow> []);
                  m1 = m\<lparr>funs := (funs m)(funcName \<mapsto> assign funcBlocks numArgs fn)\<rparr>
              in case argConds js (drop 4 condList) 4 [] of
                   Inl e \<Rightarrow> Inl e
                 | Inr None \<Rightarrow> Inr m1
                 | Inr (Some fullCond) \<Rightarrow>
                     (case parseLazyValue js thn of
                        Inl e \<Rightarrow> Inl e
                      | Inr ret \<Rightarrow>
                          Inr (m\<lparr>funs := (funs m)(funcName \<mapsto>
                                 assign funcBlocks numArgs ((fullCond, ret) # fn))\<rparr>)))))"

text \<open>The captured condition group, as the list it is.\<close>

definition captureList :: "(string \<times> SExpr) list \<Rightarrow> string \<Rightarrow> SExpr list" where
  "captureList b k = (case capture b k of Atom a \<Rightarrow> [] | SList es \<Rightarrow> es)"

function parseFunctions :: "'n Host \<Rightarrow> SExpr \<Rightarrow> jsint \<Rightarrow> 'n Model \<Rightarrow> error + 'n Model" where
  "parseFunctions js smt numArgs m =
     (case matchSExpr smt appShape of
        None \<Rightarrow>
          (case parseLazyValue js smt of
             Inl e \<Rightarrow> Inl e
           | Inr val \<Rightarrow> Inr (m\<lparr>funDefaults := (funDefaults m)(numArgs \<mapsto> val)\<rparr>))
      | Some iteMatch \<Rightarrow>
          (case parseFunctions js (capture iteMatch ''els'') numArgs m of
             Inl e \<Rightarrow> Inl e
           | Inr m' \<Rightarrow>
               recordBranch js (captureList iteMatch ''cond'') (capture iteMatch ''then'') numArgs m'))"
  by pat_completeness auto
termination
  by (relation "measure (\<lambda>(js, smt, numArgs, m). size smt)") (auto simp: appShape_def capture_size)

declare parseFunctions.simps [simp del]

section \<open>Definitions and construction\<close>

text \<open>The template of \<^verbatim>\<open>parseDefinition\<close>: \<^verbatim>\<open>define-fun\<close>, a name, an argument group, a sort
  and a body.\<close>

definition defineFunShape :: SExprPattern where
  "defineFunShape =
     PList [PLit ''define-fun'', PName ''name'', PGroup ''args'', PExpr ''return'', PExpr ''body'']"

definition parseDefinition :: "'n Host \<Rightarrow> SExpr \<Rightarrow> 'n Model \<Rightarrow> error + 'n Model" where
  "parseDefinition js data m =
     (if (case data of Atom a \<Rightarrow> True | SList es \<Rightarrow> length es < 1)
      then Inl (modelError js ''expected define-fun'')
      else
        (case matchSExpr data defineFunShape of
           None \<Rightarrow> Inr m
         | Some mt \<Rightarrow>
             (let name = captureName mt ''name''; body = capture mt ''body'' in
              if startsWith name ''v_'' then
                (case parseLazyValue js body of
                   Inl e \<Rightarrow> Inl e
                 | Inr val \<Rightarrow> Inr (m\<lparr>vars := (vars m)(drop 2 name \<mapsto> val)\<rparr>))
              else if startsWith name ''l_'' then
                (case body of
                   SList l \<Rightarrow> Inl (modelError js ''expected loc'')
                 | Atom locVal \<Rightarrow> Inr (m\<lparr>locs := (locs m)(drop 2 name \<mapsto> locVal)\<rparr>))
              else if startsWith name ''h_'' then
                (case parseHeap js body of
                   Inl e \<Rightarrow> Inl e
                 | Inr h \<Rightarrow> Inr (m\<lparr>heaps := (heaps m)(parseInt (drop 2 name) 10 \<mapsto> h)\<rparr>))
              else if name = ''arrlength'' then
                (case parseArrayLengths js body of
                   Inl e \<Rightarrow> Inl e
                 | Inr f \<Rightarrow> Inr (m\<lparr>arrLengths := Some f\<rparr>))
              else if name = ''arrelems'' then
                (case parseArrayElems js body of
                   Inl e \<Rightarrow> Inl e
                 | Inr f \<Rightarrow> Inr (m\<lparr>arrElems := Some f\<rparr>))
              else if name = ''objproperties'' then
                (case parseObjectProperties js body of
                   Inl e \<Rightarrow> Inl e
                 | Inr f \<Rightarrow> Inr (m\<lparr>objProperties := Some f\<rparr>))
              else if name = ''objfield'' then
                (case parseObjectFields js body of
                   Inl e \<Rightarrow> Inl e
                 | Inr f \<Rightarrow> Inr (m\<lparr>objFields := Some f\<rparr>))
              else if startsWith name ''c_'' then Inr m
              else if startsWith name ''app'' then parseFunctions js body (parseInt (drop 3 name) 10) m
              else if startsWith name ''pre'' \<or> startsWith name ''post'' \<or> startsWith name ''eff''
                      \<or> startsWith name ''call'' then Inr m
              else
                (case matchSExpr data
                        (PList [PLit ''define-fun'', PName ''name'',
                                PList [PList [PLit ''x!0'', PLit ''Loc'']], PLit ''JSVal'',
                                PExpr ''body'']) of
                   Some heapMatch \<Rightarrow>
                     (case parseHeapMapping js (capture heapMatch ''body'') of
                        Inl e \<Rightarrow> Inl e
                      | Inr h \<Rightarrow>
                          Inr (m\<lparr>heapMappings := (heapMappings m)(captureName heapMatch ''name'' \<mapsto> h)\<rparr>))
                 | None \<Rightarrow>
                     (case matchSExpr data
                             (PList [PLit ''define-fun'', PName ''name'',
                                     PList [PList [PLit ''x!0'', PLit ''String'']], PLit ''Bool'',
                                     PExpr ''body'']) of
                        Some propertiesMatch \<Rightarrow>
                          (case parsePropertyMapping js (capture propertiesMatch ''body'') of
                             Inl e \<Rightarrow> Inl e
                           | Inr mapping \<Rightarrow>
                               Inr (m\<lparr>objPropertyMappings :=
                                      (objPropertyMappings m)(captureName propertiesMatch ''name'' \<mapsto>
                                        (case mapping of None \<Rightarrow> [] | Some s \<Rightarrow> s))\<rparr>))
                      | None \<Rightarrow> Inl (modelError js (''unexpected key: '' @ name)))))))"

text \<open>\<^verbatim>\<open>data.slice(1).forEach((s) => this.parseDefinition(s))\<close>: in order, up to the first throw.\<close>

fun parseDefinitions :: "'n Host \<Rightarrow> SExpr list \<Rightarrow> 'n Model \<Rightarrow> error + 'n Model" where
  "parseDefinitions js [] m = Inr m"
| "parseDefinitions js (s # ss) m =
     (case parseDefinition js s m of Inl e \<Rightarrow> Inl e | Inr m' \<Rightarrow> parseDefinitions js ss m')"

text \<open>
  The constructor. \<^verbatim>\<open>parseSExpr\<close> of \<^verbatim>\<open>src/util.ts\<close> is not among the sources and is a
  parameter: it returns the tree, or the message of the error it throws. In the first
  statement the source builds the exception for an \<^verbatim>\<open>(error\<close> body and does not throw it; the
  value is bound and unused here as it is there.
\<close>

definition Model_new :: "'n Host \<Rightarrow> (string \<Rightarrow> string + SExpr) \<Rightarrow> string \<Rightarrow> error + 'n Model" where
  "Model_new js parseSExpr smt =
     (let smt2 = drop 3 smt;
          unthrown = (if startsWith (trim smt2) ''(error'' then Some (modelError js (trim smt2)) else None)
      in case parseSExpr (trim smt2) of
           Inl message \<Rightarrow> Inl (modelError js message)
         | Inr data \<Rightarrow>
             (case data of
                Atom a \<Rightarrow> Inl (modelError js a)
              | SList es \<Rightarrow>
                  if length es < 2 then Inl (modelError js smt)
                  else if es ! 0 \<noteq> Atom ''model'' then Inl (modelError js smt)
                  else parseDefinitions js (drop 1 es) emptyModel))"

section \<open>Hydration and queries\<close>

text \<open>
  Running a list of computations in order. A computation gives nothing when it does not
  return, an error when it throws, a value otherwise; the first that does not return or that
  throws ends the run.
\<close>

fun sequence :: "(error + 'a) option list \<Rightarrow> (error + 'a list) option" where
  "sequence [] = Some (Inr [])"
| "sequence (x # xs) =
     (case x of
        None \<Rightarrow> None
      | Some (Inl e) \<Rightarrow> Some (Inl e)
      | Some (Inr v) \<Rightarrow>
          (case sequence xs of
             None \<Rightarrow> None
           | Some (Inl e) \<Rightarrow> Some (Inl e)
           | Some (Inr vs) \<Rightarrow> Some (Inr (v # vs))))"

text \<open>The test of a branch: \<^verbatim>\<open>x_i === value\<close> for each argument, joined to the right by \<^verbatim>\<open>&&\<close>
  (\<^verbatim>\<open>reduceRight\<close> without a start value, on a list that is not empty).\<close>

definition branchTest :: "'n Value list \<Rightarrow> 'n Expression" where
  "branchTest cond =
     (let tests = map (\<lambda>(condExpr, argIdx).
                         BinaryExpression ''==='' (id_node (''x_'' @ showNat argIdx))
                           (valueToJavaScript condExpr))
                      (zip cond [0 ..< length cond])
      in foldr (\<lambda>curr prev. LogicalExpression ''&&'' curr prev) (butlast tests) (last tests))"

text \<open>
  The \<^verbatim>\<open>forEach\<close> over the branches of a function: \<open>h\<close> hydrates, \<open>defaultVal\<close> is the default
  so far (nothing for \<^verbatim>\<open>undefined\<close>), \<open>body\<close> the statements so far.
\<close>

fun funBody ::
  "('n Value \<Rightarrow> (error + 'n Value) option) \<Rightarrow> 'n LazyFun \<Rightarrow> 'n Value option \<Rightarrow> 'n Statement list
     \<Rightarrow> (error + ('n Value option \<times> 'n Statement list)) option" where
  "funBody h [] defaultVal body = Some (Inr (defaultVal, body))"
| "funBody h ((cond, ret) # branches) defaultVal body =
     (if length cond = 0 then funBody h branches (Some ret) body
      else
        (case h ret of
           None \<Rightarrow> None
         | Some (Inl e) \<Rightarrow> Some (Inl e)
         | Some (Inr v) \<Rightarrow>
             funBody h branches defaultVal
               (body @ [IfStatement (branchTest cond)
                          (BlockStatement [ReturnStatement (valueToJavaScript v)])
                          (BlockStatement [])])))"

text \<open>\<^verbatim>\<open>[...Array(n)]\<close>: the indices \<open>0\<close> to \<open>n - 1\<close>, or a \<^verbatim>\<open>RangeError\<close> when \<open>n\<close> is not an
  array length.\<close>

definition arrayIndices :: "jsint \<Rightarrow> error + nat list" where
  "arrayIndices n =
     (case n of
        NaN \<Rightarrow> Inl RangeError
      | Finite k \<Rightarrow> if k < 0 \<or> k \<ge> 2 ^ 32 then Inl RangeError else Inr [0 ..< nat k])"

text \<open>
  \<^verbatim>\<open>hydrate\<close>. Nothing in the source bounds its recursion (a model may refer to itself), so
  the first argument is the depth the calls may still reach: the result is nothing when
  that depth does not suffice. With several keys the blocks of a function are refused, with
  one key \<^verbatim>\<open>numArgs\<close> is that key read back by \<^verbatim>\<open>parseInt\<close>.

  The tests \<^verbatim>\<open>val.name in this.funs\<close> and \<^verbatim>\<open>objAlias in this.objPropertyMappings\<close> hold for the
  names of \<^verbatim>\<open>Object.prototype\<close> too. A member without entries has no key for \<^verbatim>\<open>Object.keys\<close>,
  so it is refused as the blocks of a function; and it cannot be iterated, so the loop
  over its properties is a \<^verbatim>\<open>TypeError\<close>.
\<close>

fun hydrate :: "nat \<Rightarrow> 'n Host \<Rightarrow> 'n Model \<Rightarrow> 'n Value \<Rightarrow> (error + 'n Value) option" where
  "hydrate 0 js m val = None"
| "hydrate (Suc n) js m val =
     (case val of
        ObjCls cls args \<Rightarrow>
          (case sequence (map (hydrate n js m) args) of
             None \<Rightarrow> None
           | Some (Inl e) \<Rightarrow> Some (Inl e)
           | Some (Inr vs) \<Rightarrow> Some (Inr (ObjCls cls vs)))
      | FunRef name \<Rightarrow>
          (case funs m name of
             None \<Rightarrow>
               if name \<in> set objectPrototypeKeys then
                 Some (Inl (modelError js ''no support for variable argument functions''))
               else Some (Inr (Fun (FunctionExpression None [] [] [] (BlockStatement []) [])))
           | Some funcBlocks \<Rightarrow>
               if length funcBlocks \<noteq> 1 then
                 Some (Inl (modelError js ''no support for variable argument functions''))
               else
                 (let numArgs = fst (hd funcBlocks); fn = snd (hd funcBlocks) in
                  case funBody (hydrate n js m) fn (funDefaults m numArgs) [] of
                    None \<Rightarrow> None
                  | Some (Inl e) \<Rightarrow> Some (Inl e)
                  | Some (Inr (defaultVal, body)) \<Rightarrow>
                      (case (case defaultVal of None \<Rightarrow> Some (Inl TypeError)
                             | Some d \<Rightarrow> hydrate n js m d) of
                         None \<Rightarrow> None
                       | Some (Inl e) \<Rightarrow> Some (Inl e)
                       | Some (Inr v) \<Rightarrow>
                           (case arrayIndices numArgs of
                              Inl e \<Rightarrow> Some (Inl e)
                            | Inr idxs \<Rightarrow>
                                Some (Inr (Fun (FunctionExpression None
                                  (map (\<lambda>idx. id_node (''x_'' @ showNat idx)) idxs) [] []
                                  (BlockStatement (body @ [ReturnStatement (valueToJavaScript v)]))
                                  [])))))))
      | ArrRef name \<Rightarrow>
          (case arrLengths m of
             None \<Rightarrow> Some (Inl (modelError js ''no arrlength''))
           | Some lengths \<Rightarrow>
               (case arrayIndices (lengths name) of
                  Inl e \<Rightarrow> Some (Inl e)
                | Inr idxs \<Rightarrow>
                    (case sequence
                            (map (\<lambda>i. case arrElems m of
                                         None \<Rightarrow> Some (Inl (modelError js ''no arrelems''))
                                       | Some elems \<Rightarrow> hydrate n js m (elems name (int i)))
                                 idxs) of
                       None \<Rightarrow> None
                     | Some (Inl e) \<Rightarrow> Some (Inl e)
                     | Some (Inr vs) \<Rightarrow> Some (Inr (Arr vs)))))
      | ObjRef name \<Rightarrow>
          (case objProperties m of
             None \<Rightarrow> Some (Inl (modelError js ''no objproperties''))
           | Some properties \<Rightarrow>
               (case objFields m of
                  None \<Rightarrow> Some (Inl (modelError js ''no objfields''))
                | Some flds \<Rightarrow>
                    (let objAlias = properties name in
                     case objPropertyMappings m objAlias of
                       None \<Rightarrow>
                         if objAlias \<in> set objectPrototypeKeys then Some (Inl TypeError)
                         else Some (Inl (modelError js (''no mapping for '' @ properties name)))
                     | Some keys \<Rightarrow>
                         (case sequence (map (\<lambda>key. hydrate n js m (flds name key)) keys) of
                            None \<Rightarrow> None
                          | Some (Inl e) \<Rightarrow> Some (Inl e)
                          | Some (Inr vs) \<Rightarrow>
                              Some (Inr (Obj (foldl (\<lambda>obj (key, v). setProperty obj key v) []
                                               (zip keys vs))))))))
      | _ \<Rightarrow> Some (Inr val))"

text \<open>
  Modelled from the spec: \<^verbatim>\<open>FreeVar\<close> of \<^verbatim>\<open>src/logic.ts\<close>, not among the sources. The spec has a
  query take either a plain variable name or a pair of a location name and a heap generation
  index; \<^verbatim>\<open>valueOf\<close> reads the pair's fields \<^verbatim>\<open>name\<close> and \<^verbatim>\<open>heap\<close>.
\<close>

datatype FreeVar = Var string | HeapVar string jsint

text \<open>
  What \<^verbatim>\<open>valueOf\<close> can meet and return is not always a tagged object. The dictionaries
  \<^verbatim>\<open>vars\<close>, \<^verbatim>\<open>locs\<close> and \<^verbatim>\<open>heapMappings\<close> are read with \<^verbatim>\<open>dict[key]\<close>, which follows the
  prototype of the dictionary: it can give a built-in function of \<^verbatim>\<open>Object.prototype\<close> (named
  here by its key), \<^verbatim>\<open>Object.prototype\<close> itself, or, when an assignment to \<^verbatim>\<open>__proto__\<close> has
  made a tagged object the prototype, a field of that object: a string, a number, a
  boolean, an array of tagged objects, the dictionary of an \<^verbatim>\<open>obj\<close> or the syntax of a
  \<^verbatim>\<open>fun\<close>. \<open>Boxed\<close> is the wrapper object that \<^verbatim>\<open>Object(v)\<close> makes of a primitive.
\<close>

datatype 'n Any =
    Node "'n Value"
  | Builtin string
  | ObjectPrototype
  | StringValue string
  | NumberValue 'n
  | BooleanValue bool
  | ArrayValue "'n Value list"
  | Dictionary "(string \<times> 'n Value) list"
  | SyntaxNode "'n Expression"
  | Boxed "'n Any"

text \<open>The own fields of a tagged object.\<close>

definition memberOf :: "'n Value \<Rightarrow> string \<Rightarrow> 'n Any option" where
  "memberOf val key =
     (if key = ''type'' then Some (StringValue (typeTag val))
      else
        (case val of
           Num v \<Rightarrow> if key = ''v'' then Some (NumberValue v) else None
         | Bool v \<Rightarrow> if key = ''v'' then Some (BooleanValue v) else None
         | Str v \<Rightarrow> if key = ''v'' then Some (StringValue v) else None
         | Null \<Rightarrow> None
         | Undefined \<Rightarrow> None
         | Fun body \<Rightarrow> if key = ''body'' then Some (SyntaxNode body) else None
         | Obj v \<Rightarrow> if key = ''v'' then Some (Dictionary v) else None
         | ObjCls cls args \<Rightarrow>
             if key = ''cls'' then Some (StringValue cls)
             else if key = ''args'' then Some (ArrayValue args)
             else None
         | Arr elems \<Rightarrow> if key = ''elems'' then Some (ArrayValue elems) else None
         | ArrRef name \<Rightarrow> if key = ''name'' then Some (StringValue name) else None
         | ObjRef name \<Rightarrow> if key = ''name'' then Some (StringValue name) else None
         | FunRef name \<Rightarrow> if key = ''name'' then Some (StringValue name) else None
         | Loc name \<Rightarrow> if key = ''name'' then Some (StringValue name) else None))"

text \<open>
  \<^verbatim>\<open>dict[key]\<close> on a dictionary of tagged objects made by \<^verbatim>\<open>{}\<close> and written by assignment;
  nothing is \<^verbatim>\<open>undefined\<close>. The key \<^verbatim>\<open>__proto__\<close> gives the prototype; any other key is looked
  for among the own keys, then in the prototype when that is a tagged object, then in
  \<^verbatim>\<open>Object.prototype\<close>.
\<close>

definition getProperty :: "(string \<rightharpoonup> 'n Value) \<Rightarrow> string \<Rightarrow> 'n Any option" where
  "getProperty dict key =
     (if key = ''__proto__'' then
        (case dict ''__proto__'' of
           None \<Rightarrow> Some ObjectPrototype
         | Some proto \<Rightarrow> Some (Node proto))
      else
        (case dict key of
           Some val \<Rightarrow> Some (Node val)
         | None \<Rightarrow>
             (case Option.bind (dict ''__proto__'') (\<lambda>proto. memberOf proto key) of
                Some field \<Rightarrow> Some field
              | None \<Rightarrow> if key \<in> set objectPrototypeKeys then Some (Builtin key) else None)))"

text \<open>A value as a condition (\<^verbatim>\<open>!val\<close> is its negation): objects and functions hold.\<close>

fun truthy :: "'n Host \<Rightarrow> 'n Any \<Rightarrow> bool" where
  "truthy js (StringValue s) = (s \<noteq> [])"
| "truthy js (NumberValue v) = numTruthy js v"
| "truthy js (BooleanValue b) = b"
| "truthy js v = True"

text \<open>
  \<^verbatim>\<open>loc.name\<close>, when it is a string: the field of a tagged object or of an identifier, the
  name of a built-in function (the member \<^verbatim>\<open>constructor\<close> is the function \<^verbatim>\<open>Object\<close>). A heap
  mapping compares it to the names of its branches with \<^verbatim>\<open>===\<close>.
\<close>

fun nameOf :: "'n Any \<Rightarrow> string option" where
  "nameOf (Node val) = (case memberOf val ''name'' of Some (StringValue s) \<Rightarrow> Some s | _ \<Rightarrow> None)"
| "nameOf (Builtin key) = Some (if key = ''constructor'' then ''Object'' else key)"
| "nameOf (SyntaxNode (Identifier x)) = Some x"
| "nameOf v = None"

fun isPrimitive :: "'n Any \<Rightarrow> bool" where
  "isPrimitive (StringValue s) = True"
| "isPrimitive (NumberValue v) = True"
| "isPrimitive (BooleanValue b) = True"
| "isPrimitive v = False"

text \<open>
  \<^verbatim>\<open>heap(loc)\<close> when \<^verbatim>\<open>heap\<close> is a built-in function of \<^verbatim>\<open>Object.prototype\<close>, called without a
  receiver. \<^verbatim>\<open>Object(loc)\<close> is \<^verbatim>\<open>loc\<close>, or its wrapper when \<^verbatim>\<open>loc\<close> is a primitive;
  \<^verbatim>\<open>toString\<close> describes the missing receiver; \<^verbatim>\<open>isPrototypeOf\<close> answers \<^verbatim>\<open>false\<close> for a
  primitive before it looks at the receiver; every other call converts the receiver to an
  object and throws.
\<close>

definition callBuiltin :: "string \<Rightarrow> 'n Any \<Rightarrow> error + 'n Any" where
  "callBuiltin key arg =
     (if key = ''constructor'' then Inr (if isPrimitive arg then Boxed arg else arg)
      else if key = ''toString'' then Inr (StringValue ''[object Undefined]'')
      else if key = ''isPrototypeOf'' \<and> isPrimitive arg then Inr (BooleanValue False)
      else Inl TypeError)"

text \<open>\<^verbatim>\<open>this.hydrate(val)\<close> on any value: one without the field \<^verbatim>\<open>type\<close> takes the \<^verbatim>\<open>default\<close>
  branch and is returned as it is.\<close>

definition hydrateAny :: "nat \<Rightarrow> 'n Host \<Rightarrow> 'n Model \<Rightarrow> 'n Any \<Rightarrow> (error + 'n Any) option" where
  "hydrateAny fuel js m val =
     (case val of
        Node v \<Rightarrow>
          (case hydrate fuel js m v of
             None \<Rightarrow> None
           | Some (Inl e) \<Rightarrow> Some (Inl e)
           | Some (Inr r) \<Rightarrow> Some (Inr (Node r)))
      | _ \<Rightarrow> Some (Inr val))"

text \<open>
  \<^verbatim>\<open>valueOf\<close>. An absent slot of \<^verbatim>\<open>this.heaps\<close> is \<^verbatim>\<open>undefined\<close>, which as a key is the string
  \<^verbatim>\<open>"undefined"\<close>. Under \<^verbatim>\<open>__proto__\<close> a table of heap mappings without that entry gives
  \<^verbatim>\<open>Object.prototype\<close>, which is not a function.
\<close>

definition valueOf :: "nat \<Rightarrow> 'n Host \<Rightarrow> 'n Model \<Rightarrow> FreeVar \<Rightarrow> (error + 'n Any) option" where
  "valueOf fuel js m name =
     (case name of
        Var x \<Rightarrow>
          (case getProperty (vars m) x of
             None \<Rightarrow> Some (Inr (Node Undefined))
           | Some val \<Rightarrow>
               if truthy js val then hydrateAny fuel js m val else Some (Inr (Node Undefined)))
      | HeapVar x h \<Rightarrow>
          (case getProperty (\<lambda>k. map_option Loc (locs m k)) x of
             None \<Rightarrow> Some (Inl (modelError js (''no such loc '' @ x)))
           | Some location \<Rightarrow>
               if truthy js location then
                 (let key = (case heaps m h of None \<Rightarrow> ''undefined'' | Some heapName \<Rightarrow> heapName) in
                  case heapMappings m key of
                    Some heap \<Rightarrow> hydrateAny fuel js m (Node (heap (nameOf location)))
                  | None \<Rightarrow>
                      if key = ''__proto__'' then Some (Inl TypeError)
                      else if key \<in> set objectPrototypeKeys then
                        (case callBuiltin key location of
                           Inl e \<Rightarrow> Some (Inl e)
                         | Inr r \<Rightarrow> hydrateAny fuel js m r)
                      else Some (Inl (modelError js (''no such heap '' @ showNumber h))))
               else Some (Inl (modelError js (''no such loc '' @ x)))))"

text \<open>\<^verbatim>\<open>variables()\<close> and \<^verbatim>\<open>mutableVariables()\<close>: the own keys.\<close>

definition variables :: "'n Model \<Rightarrow> string set" where
  "variables m = (dom (vars m) \<union> dom (locs m)) - {''__proto__''}"

definition mutableVariables :: "'n Model \<Rightarrow> string set" where
  "mutableVariables m = dom (locs m) - {''__proto__''}"

section \<open>A host for examples\<close>

text \<open>
  Examples need a host that can be run. This one has the default options and knows the
  integers only: \<^verbatim>\<open>parseFloat\<close> reads a decimal integer, arithmetic is that of \<^typ>\<open>int\<close>.
\<close>

definition exampleHost :: "int Host" where
  "exampleHost =
     \<lparr> getOptions = defaultOptions,
       parseFloat = (\<lambda>s. case parseInt s 10 of NaN \<Rightarrow> None | Finite k \<Rightarrow> Some k),
       fromInt = (\<lambda>k. k),
       numNeg = (\<lambda>a. - a),
       numDiv = (\<lambda>a b. a div b),
       numMul = (\<lambda>a b. a * b),
       numAdd = (\<lambda>a b. a + b),
       numFloor = (\<lambda>a. a),
       numTruthy = (\<lambda>a. a \<noteq> 0) \<rparr>"

section \<open>String decoding (C8)\<close>

text \<open>What the escape translation does do: a backslash, \<open>x\<close> and two decimal digits become
  the character whose code the digits give in base 16.\<close>

lemma replaceEscapes_decimal:
  "isDecimalDigit c \<Longrightarrow> isDecimalDigit d \<Longrightarrow>
   replaceEscapes (backslash # CHR ''x'' # c # d # rest)
     = fromCharCode (parseInt [c, d] 16) @ replaceEscapes rest"
  by simp

lemma parseStringValue_x41_x42:
  "parseStringValue (Atom ([dquote, backslash] @ ''x41'' @ [backslash] @ ''x42'' @ [dquote]))
     = Some ''AB''"
  by code_simp

lemma parseStringValue_concat:
  "parseStringValue (SList [Atom ''str.++'', p, q]) =
     (case parseStringValue p of
        None \<Rightarrow> None
      | Some a \<Rightarrow> (case parseStringValue q of None \<Rightarrow> None | Some b \<Rightarrow> Some (a @ b)))"
  by (simp split: option.splits)

lemma parseStringValue_code_point_65:
  "parseStringValue (SList [Atom ''seq.unit'', Atom ''65'']) = Some ''A''"
  "parseStringValue (SList [Atom ''str.from_code'', Atom ''65'']) = Some ''A''"
  by code_simp+

text \<open>
  C8: string decoding translates every \<^verbatim>\<open>\xNN\<close> escape of a quoted literal to the character
  with code \<open>NN\<close>. The decoder reads \<open>NN\<close> in base 16 but its pattern accepts decimal digits
  only: the literal \<^verbatim>\<open>"\x4a"\<close>, whose escape names the letter \<open>J\<close>, comes back with the
  escape untouched.
\<close>

theorem parseStringValue_hex_letter_escape:
  "parseStringValue (Atom ([dquote, backslash] @ ''x4a'' @ [dquote])) = Some ([backslash] @ ''x4a'')
   \<and> parseStringValue (Atom ([dquote, backslash] @ ''x4a'' @ [dquote])) \<noteq> Some ''J''"
  by code_simp

section \<open>An error body (C2)\<close>

text \<open>The test for an \<^verbatim>\<open>(error\<close> body changes nothing: construction is the parse and what
  follows it, whatever the body starts with.\<close>

lemma Model_new_without_marker:
  "Model_new js parseSExpr smt =
     (case parseSExpr (trim (drop 3 smt)) of
        Inl message \<Rightarrow> Inl (modelError js message)
      | Inr data \<Rightarrow>
          (case data of
             Atom a \<Rightarrow> Inl (modelError js a)
           | SList es \<Rightarrow>
               if length es < 2 \<or> es ! 0 \<noteq> Atom ''model'' then Inl (modelError js smt)
               else parseDefinitions js (drop 1 es) emptyModel))"
  by (simp add: Model_new_def Let_def split: sum.splits SExpr.splits)

text \<open>So whenever the body parses to a list of two or more elements that does not start with
  \<^verbatim>\<open>model\<close>, as an \<^verbatim>\<open>(error ...)\<close> list does, the failure carries the whole output.\<close>

lemma Model_new_not_a_model:
  "parseSExpr (trim (drop 3 smt)) = Inr (SList es) \<Longrightarrow> 2 \<le> length es \<Longrightarrow> es ! 0 \<noteq> Atom ''model''
   \<Longrightarrow> Model_new js parseSExpr smt = Inl (modelError js smt)"
  by (simp add: Model_new_without_marker)

text \<open>
  C2: a solver output whose text after the three-character tag starts, once trimmed, with
  \<^verbatim>\<open>(error\<close> makes construction fail at once with that text as the description, without
  structural parsing. On \<^verbatim>\<open>sat (error "x")\<close> the body is parsed, and the failure that follows
  (the list does not start with \<^verbatim>\<open>model\<close>) carries the whole output, tag included, and not
  the trimmed error text.
\<close>

theorem Model_new_error_body:
  \<open>Model_new exampleHost
      (\<lambda>s. if s = ''(error "x")'' then Inr (SList [Atom ''error'', Atom ''"x"''])
            else Inl ''parse error'')
      ''sat (error "x")''
     = Inl (modelError exampleHost ''sat (error "x")'')
   \<and> modelError exampleHost ''sat (error "x")'' \<noteq> modelError exampleHost ''(error "x")''\<close>
  by (simp add: Model_new_def trim_def isWhiteSpace_def modelError_def)

section \<open>Entries that are not definitions (C6)\<close>





section \<open>Queries for names that are not bound (C10)\<close>

text \<open>
  A plain name that is not a key of \<^verbatim>\<open>vars\<close> gives Undefined when nothing is inherited under
  it: the table has its first prototype and the name is none of \<^verbatim>\<open>Object.prototype\<close>'s. The
  same holds of a location name and the failure \<^verbatim>\<open>no such loc\<close>; and a heap generation without
  a slot fails with \<^verbatim>\<open>no such heap\<close> when no heap mapping is called \<^verbatim>\<open>undefined\<close>.
\<close>

lemma valueOf_Var_not_inherited:
  "vars m x = None \<Longrightarrow> vars m ''__proto__'' = None \<Longrightarrow> x \<notin> set objectPrototypeKeys
   \<Longrightarrow> valueOf fuel js m (Var x) = Some (Inr (Node Undefined))"
  by (auto simp: valueOf_def getProperty_def objectPrototypeKeys_def)

lemma valueOf_HeapVar_loc_not_inherited:
  "locs m x = None \<Longrightarrow> locs m ''__proto__'' = None \<Longrightarrow> x \<notin> set objectPrototypeKeys
   \<Longrightarrow> valueOf fuel js m (HeapVar x h) = Some (Inl (modelError js (''no such loc '' @ x)))"
  by (auto simp: valueOf_def getProperty_def objectPrototypeKeys_def)

lemma valueOf_HeapVar_no_slot:
  "locs m x = Some l \<Longrightarrow> x \<noteq> ''__proto__'' \<Longrightarrow> heaps m h = None
   \<Longrightarrow> heapMappings m ''undefined'' = None
   \<Longrightarrow> valueOf fuel js m (HeapVar x h)
         = Some (Inl (modelError js (''no such heap '' @ showNumber h)))"
  by (simp add: valueOf_def getProperty_def objectPrototypeKeys_def)

text \<open>A model with one location, one heap generation, and two heap mappings, of which one is
  called \<^verbatim>\<open>undefined\<close>; no variable.\<close>

definition oneLocation :: "int Model" where
  "oneLocation =
     emptyModel\<lparr>locs := [''p'' \<mapsto> ''L0''], heaps := [Finite 0 \<mapsto> ''k!0''],
                heapMappings := [''k!0'' \<mapsto> (\<lambda>loc. Bool True), ''undefined'' \<mapsto> (\<lambda>loc. Null)]\<rparr>"

lemma oneLocation_decoded:
  \<open>Model_new exampleHost
      (\<lambda>s. Inr (SList [Atom ''model'',
           SList [Atom ''define-fun'', Atom ''l_p'', SList [], Atom ''Loc'', Atom ''L0''],
           SList [Atom ''define-fun'', Atom ''h_0'', SList [], Atom ''Heap'',
                  SList [Atom ''_'', Atom ''as-array'', Atom ''k!0'']],
           SList [Atom ''define-fun'', Atom ''k!0'', SList [SList [Atom ''x!0'', Atom ''Loc'']],
                  Atom ''JSVal'', SList [Atom ''jsbool'', Atom ''true'']],
           SList [Atom ''define-fun'', Atom ''undefined'', SList [SList [Atom ''x!0'', Atom ''Loc'']],
                  Atom ''JSVal'', Atom ''jsnull'']]))
      (''sat(model (define-fun l_p () Loc L0) (define-fun h_0 () Heap (_ as-array k!0)) ''
       @ ''(define-fun k!0 ((x!0 Loc)) JSVal (jsbool true)) ''
       @ ''(define-fun undefined ((x!0 Loc)) JSVal jsnull))'')
     = Inr oneLocation\<close>
  by (simp add: Model_new_def parseDefinition_def defineFunShape_def startsWith_def capture_def
      captureName_def emptyModel_def oneLocation_def parseHeapMapping.simps parseInt_def
      isWhiteSpace_def isDigitOf_def digitValue_def digitsValue_def Let_def)

text \<open>
  C10: for a plain name with no binding in the variable table \<^verbatim>\<open>valueOf\<close> returns the value
  Undefined, and a query for a location name or a heap generation that is not known fails
  with the structured error. The tables are objects made by \<^verbatim>\<open>{}\<close> and are read with
  \<^verbatim>\<open>table[name]\<close>, so a name of \<^verbatim>\<open>Object.prototype\<close> finds the inherited member. In the model
  decoded above, which binds no variable, the plain name \<^verbatim>\<open>toString\<close> gives the built-in
  function and not Undefined; the location name \<^verbatim>\<open>constructor\<close>, which is not known, gives
  the value of the heap and no failure; and the heap generation 7, which is not known,
  is read in the heap mapping called \<^verbatim>\<open>undefined\<close>.
\<close>

theorem valueOf_inherited_name:
  "vars oneLocation ''toString'' = None
   \<and> valueOf fuel exampleHost oneLocation (Var ''toString'') = Some (Inr (Builtin ''toString''))
   \<and> locs oneLocation ''constructor'' = None
   \<and> valueOf (Suc fuel) exampleHost oneLocation (HeapVar ''constructor'' (Finite 0))
       = Some (Inr (Node (Bool True)))
   \<and> heaps oneLocation (Finite 7) = None
   \<and> valueOf (Suc fuel) exampleHost oneLocation (HeapVar ''p'' (Finite 7)) = Some (Inr (Node Null))"
  by (simp add: valueOf_def getProperty_def objectPrototypeKeys_def hydrateAny_def oneLocation_def
      emptyModel_def)

section \<open>Conditional chains decoded (C3)\<close>

text \<open>A right-nested chain on one key, with atoms as leaves: the pairs of a key and the leaf
  of its \<^verbatim>\<open>then\<close> branch, outermost first, and the last leaf.\<close>

fun iteChain :: "(string \<times> string) list \<Rightarrow> string \<Rightarrow> SExpr" where
  "iteChain [] d = Atom d"
| "iteChain ((k, l) # kvs) d =
     SList [Atom ''ite'', SList [Atom ''='', Atom ''x!0'', Atom k], Atom l, iteChain kvs d]"

lemma parseArrayLengths_leaf:
  "parseArrayLengths js (Atom a) = Inr (\<lambda>arrRef. parseInt a 10)"
  by (simp add: parseArrayLengths.simps)

lemma parseArrayLengths_step:
  "parseArrayLengths js (SList [Atom ''ite'', SList [Atom ''='', Atom ''x!0'', Atom k], t, e]) =
     (case parseArrayLengths js t of
        Inl err \<Rightarrow> Inl err
      | Inr thn \<Rightarrow>
          (case parseArrayLengths js e of
             Inl err \<Rightarrow> Inl err
           | Inr els \<Rightarrow> Inr (\<lambda>arrRef. if arrRef = k then thn arrRef else els arrRef)))"
  by (subst parseArrayLengths.simps) (simp add: capture_def captureName_def split: sum.splits)

text \<open>
  C3: for a right-nested chain of \<^verbatim>\<open>ite\<close> on equality tests the decoder yields a function
  defined on every key, in which the first equality along the chain that matches wins and
  the last leaf is the fallback. For the table of array lengths: the chain built from the
  pairs \<open>kvs\<close> and the leaf \<open>d\<close> decodes to the lookup of the first pair with the key, or
  \<open>d\<close>; and \<^verbatim>\<open>ite(key == a, 1, ite(key == b, 2, 0))\<close> maps \<open>a\<close> to 1, \<open>b\<close> to 2 and every
  other key to 0.
\<close>

theorem parseArrayLengths_chain:
  "parseArrayLengths js (iteChain kvs d)
     = Inr (\<lambda>arrRef. parseInt (case map_of kvs arrRef of Some l \<Rightarrow> l | None \<Rightarrow> d) 10)
   \<and> parseArrayLengths js (iteChain [(''a'', ''1''), (''b'', ''2'')] ''0'')
     = Inr (\<lambda>key. if key = ''a'' then Finite 1 else if key = ''b'' then Finite 2 else Finite 0)"
proof
  show "parseArrayLengths js (iteChain kvs d)
     = Inr (\<lambda>arrRef. parseInt (case map_of kvs arrRef of Some l \<Rightarrow> l | None \<Rightarrow> d) 10)"
  proof (induction kvs)
    case Nil
    show ?case by (simp add: parseArrayLengths_leaf)
  next
    case (Cons kv kvs)
    obtain k l where kv: "kv = (k, l)" by (cases kv)
    show ?case
      unfolding kv using Cons.IH
      by (auto simp: parseArrayLengths_step parseArrayLengths_leaf)
  qed
  have one: "parseInt ''1'' 10 = Finite 1" and two: "parseInt ''2'' 10 = Finite 2"
    and zero: "parseInt ''0'' 10 = Finite 0"
    by code_simp+
  show "parseArrayLengths js (iteChain [(''a'', ''1''), (''b'', ''2'')] ''0'')
     = Inr (\<lambda>key. if key = ''a'' then Finite 1 else if key = ''b'' then Finite 2 else Finite 0)"
    by (auto simp: parseArrayLengths_step parseArrayLengths_leaf one two zero)
qed

text \<open>
  The same for a table on two keys, the table of array elements: a chain of branches on an
  array name and an index, whose leaves are lazy values that are read, decodes to the leaf
  of the first branch that matches both keys, or to the last leaf.
\<close>

definition arrElemsShape :: SExprPattern where
  "arrElemsShape =
     PList [PLit ''ite'',
            PList [PLit ''and'', PList [PLit ''='', PLit ''x!0'', PName ''arr''],
                   PList [PLit ''='', PLit ''x!1'', PName ''i'']],
            PExpr ''then'', PExpr ''els'']"

fun elemChain :: "((string \<times> string) \<times> SExpr) list \<Rightarrow> SExpr \<Rightarrow> SExpr" where
  "elemChain [] d = d"
| "elemChain (((arr, i), l) # kvs) d =
     SList [Atom ''ite'',
            SList [Atom ''and'', SList [Atom ''='', Atom ''x!0'', Atom arr],
                   SList [Atom ''='', Atom ''x!1'', Atom i]],
            l, elemChain kvs d]"

lemma parseArrayElems_leaf:
  "matchSExpr smt arrElemsShape = None \<Longrightarrow>
   parseArrayElems js smt =
     (case parseLazyValue js smt of Inl e \<Rightarrow> Inl e | Inr val \<Rightarrow> Inr (\<lambda>arrRef idx. val))"
  by (subst parseArrayElems.simps) (simp add: arrElemsShape_def)

lemma parseArrayElems_step:
  "parseArrayElems js
     (SList [Atom ''ite'',
             SList [Atom ''and'', SList [Atom ''='', Atom ''x!0'', Atom arr],
                    SList [Atom ''='', Atom ''x!1'', Atom i]],
             t, e]) =
     (case parseArrayElems js t of
        Inl err \<Rightarrow> Inl err
      | Inr thn \<Rightarrow>
          (case parseArrayElems js e of
             Inl err \<Rightarrow> Inl err
           | Inr els \<Rightarrow>
               Inr (\<lambda>arrRef idx. if arrRef = arr \<and> Finite idx = parseInt i 10 then thn arrRef idx
                                  else els arrRef idx)))"
  by (subst parseArrayElems.simps)
     (simp add: capture_def captureName_def Let_def split: sum.splits)

lemma parseArrayElems_chain:
  assumes "\<forall>(k, l) \<in> set kvs. matchSExpr l arrElemsShape = None \<and> parseLazyValue js l = Inr (lv l)"
    and "matchSExpr d arrElemsShape = None" and "parseLazyValue js d = Inr (lv d)"
  shows "parseArrayElems js (elemChain kvs d) =
     Inr (\<lambda>arrRef idx.
            lv (case find (\<lambda>((arr, i), l). arrRef = arr \<and> Finite idx = parseInt i 10) kvs of
                  Some (k, l) \<Rightarrow> l
                | None \<Rightarrow> d))"
  using assms(1)
proof (induction kvs)
  case Nil
  with assms(2,3) show ?case by (simp add: parseArrayElems_leaf)
next
  case (Cons kv kvs)
  obtain arr i l where kv: "kv = ((arr, i), l)" by (cases kv) auto
  from Cons.prems kv have l: "matchSExpr l arrElemsShape = None" "parseLazyValue js l = Inr (lv l)"
    by auto
  from Cons.prems have "\<forall>(k, l) \<in> set kvs. matchSExpr l arrElemsShape = None
      \<and> parseLazyValue js l = Inr (lv l)" by simp
  from Cons.IH [OF this] l show ?case
    unfolding kv by (auto simp: parseArrayElems_step parseArrayElems_leaf fun_eq_iff)
qed

section \<open>Hydrating an array reference (C5)\<close>

lemma sequence_pointwise:
  "length vs = length xs \<Longrightarrow> (\<forall>i < length xs. xs ! i = Some (Inr (vs ! i)))
   \<Longrightarrow> sequence xs = Some (Inr vs)"
proof (induction xs arbitrary: vs)
  case Nil
  then show ?case by simp
next
  case (Cons x xs)
  then obtain v vs' where vs: "vs = v # vs'" by (cases vs) auto
  from Cons.prems vs have x: "x = Some (Inr v)" by auto
  from Cons.prems vs have "\<forall>i < length xs. xs ! i = Some (Inr (vs' ! i))" by auto
  with Cons.IH [of vs'] Cons.prems vs have "sequence xs = Some (Inr vs')" by simp
  with x vs show ?case by simp
qed

lemma arrayIndices_valid:
  "0 \<le> len \<Longrightarrow> len < 2 ^ 32 \<Longrightarrow> arrayIndices (Finite len) = Inr [0 ..< nat len]"
  by (simp add: arrayIndices_def)

lemma hydrate_ArrRef_bad_length:
  "arrLengths m = Some lengths \<Longrightarrow> lengths a = NaN \<or> (\<exists>k. lengths a = Finite k \<and> (k < 0 \<or> 2 ^ 32 \<le> k))
   \<Longrightarrow> hydrate (Suc n) js m (ArrRef a) = Some (Inl RangeError)"
  by (auto simp: arrayIndices_def)

text \<open>
  C5, as stated: hydrating an array reference fails whenever the table of lengths or the
  table of elements is not populated. With a table of lengths that gives 0 and no table of
  elements it does not fail: the model of the one definition \<^verbatim>\<open>arrlength = 0\<close> hydrates
  \<^verbatim>\<open>Arr!0\<close> to the empty array.
\<close>

theorem hydrate_empty_array_without_elements:
  "parseDefinitions exampleHost
     [SList [Atom ''define-fun'', Atom ''arrlength'', SList [SList [Atom ''x!0'', Atom ''Arr'']],
             Atom ''Int'', Atom ''0'']] emptyModel
     = Inr (emptyModel\<lparr>arrLengths := Some (\<lambda>arrRef. parseInt ''0'' 10)\<rparr>)
   \<and> arrElems (emptyModel\<lparr>arrLengths := Some (\<lambda>arrRef. parseInt ''0'' 10)\<rparr> :: int Model) = None
   \<and> hydrate 1 exampleHost (emptyModel\<lparr>arrLengths := Some (\<lambda>arrRef. parseInt ''0'' 10)\<rparr>)
        (ArrRef ''Arr!0'') = Some (Inr (Arr []))"
proof -
  have zero: "parseInt ''0'' 10 = Finite 0" by code_simp
  show ?thesis
    by (simp add: parseDefinition_def defineFunShape_def startsWith_def capture_def
        captureName_def emptyModel_def parseArrayLengths.simps zero arrayIndices_def)
qed

text \<open>
  C5, amended: hydrating an array reference fails with the "unrecognized model" error when
  the table of lengths is not populated, and when the table of elements is not populated and
  the length of the array is positive (the table is asked for once per element); with length
  0 and no table of elements the result is the empty array. When both tables are populated,
  the length is an array length and every element hydrates, the result is the array whose
  element at each index \<open>i\<close> below the length is the hydration of the element table at the
  reference and \<open>i\<close>.
\<close>

theorem hydrate_ArrRef:
  "(arrLengths m = None \<longrightarrow>
      hydrate (Suc n) js m (ArrRef a) = Some (Inl (modelError js ''no arrlength'')))
   \<and> (arrLengths m = Some lengths \<and> lengths a = Finite len \<and> 0 < len \<and> len < 2 ^ 32
        \<and> arrElems m = None \<longrightarrow>
      hydrate (Suc n) js m (ArrRef a) = Some (Inl (modelError js ''no arrelems'')))
   \<and> (arrLengths m = Some lengths \<and> lengths a = Finite 0 \<and> arrElems m = None \<longrightarrow>
      hydrate (Suc n) js m (ArrRef a) = Some (Inr (Arr [])))
   \<and> (arrLengths m = Some lengths \<and> arrElems m = Some elems \<and> lengths a = Finite len
        \<and> 0 \<le> len \<and> len < 2 ^ 32 \<and> length vs = nat len
        \<and> (\<forall>i < nat len. hydrate n js m (elems a (int i)) = Some (Inr (vs ! i))) \<longrightarrow>
      hydrate (Suc n) js m (ArrRef a) = Some (Inr (Arr vs)))"
proof (intro conjI impI)
  assume "arrLengths m = None"
  then show "hydrate (Suc n) js m (ArrRef a) = Some (Inl (modelError js ''no arrlength''))"
    by simp
next
  assume h: "arrLengths m = Some lengths \<and> lengths a = Finite len \<and> 0 < len \<and> len < 2 ^ 32
        \<and> arrElems m = None"
  then have "[0 ..< nat len] = 0 # [1 ..< nat len]"
    by (simp add: upt_conv_Cons)
  with h show "hydrate (Suc n) js m (ArrRef a) = Some (Inl (modelError js ''no arrelems''))"
    by (simp add: arrayIndices_def)
next
  assume "arrLengths m = Some lengths \<and> lengths a = Finite 0 \<and> arrElems m = None"
  then show "hydrate (Suc n) js m (ArrRef a) = Some (Inr (Arr []))"
    by (simp add: arrayIndices_def)
next
  assume h: "arrLengths m = Some lengths \<and> arrElems m = Some elems \<and> lengths a = Finite len
        \<and> 0 \<le> len \<and> len < 2 ^ 32 \<and> length vs = nat len
        \<and> (\<forall>i < nat len. hydrate n js m (elems a (int i)) = Some (Inr (vs ! i)))"
  then have "sequence (map (\<lambda>i. hydrate n js m (elems a (int i))) [0 ..< nat len]) = Some (Inr vs)"
    by (intro sequence_pointwise) auto
  with h show "hydrate (Suc n) js m (ArrRef a) = Some (Inr (Arr vs))"
    by (simp add: arrayIndices_def)
qed

text \<open>A model with a table of lengths and a table of elements, for the witness.\<close>

definition twoElements :: "int Model" where
  "twoElements = emptyModel\<lparr>arrLengths := Some (\<lambda>arrRef. Finite 2),
                             arrElems := Some (\<lambda>arrRef idx. Num (idx + 1))\<rparr>"

theorem hydrate_ArrRef_witness:
  "hydrate (Suc 0) exampleHost emptyModel (ArrRef ''Arr!0'')
     = Some (Inl (modelError exampleHost ''no arrlength''))
   \<and> hydrate (Suc 0) exampleHost (emptyModel\<lparr>arrLengths := Some (\<lambda>arrRef. Finite 2)\<rparr>) (ArrRef ''Arr!0'')
     = Some (Inl (modelError exampleHost ''no arrelems''))
   \<and> hydrate (Suc 0) exampleHost (emptyModel\<lparr>arrLengths := Some (\<lambda>arrRef. Finite 0)\<rparr>) (ArrRef ''Arr!0'')
     = Some (Inr (Arr []))
   \<and> hydrate (Suc 1) exampleHost twoElements (ArrRef ''Arr!0'') = Some (Inr (Arr [Num 1, Num 2]))"
proof -
  have elems: "\<forall>i < nat 2. hydrate 1 exampleHost twoElements (Num (int i + 1)) = Some (Inr ([Num 1, Num 2] ! i))"
    by (simp add: less_Suc_eq numeral_2_eq_2 nat_numeral)
  from hydrate_ArrRef [where m = "emptyModel :: int Model" and n = 0 and js = exampleHost and a = "''Arr!0''"]
       hydrate_ArrRef [where m = "emptyModel\<lparr>arrLengths := Some (\<lambda>arrRef. Finite 2)\<rparr> :: int Model"
         and n = 0 and js = exampleHost and a = "''Arr!0''" and lengths = "\<lambda>arrRef. Finite 2" and len = 2]
       hydrate_ArrRef [where m = "emptyModel\<lparr>arrLengths := Some (\<lambda>arrRef. Finite 0)\<rparr> :: int Model"
         and n = 0 and js = exampleHost and a = "''Arr!0''" and lengths = "\<lambda>arrRef. Finite 0"]
       hydrate_ArrRef [where m = twoElements and n = 1 and js = exampleHost and a = "''Arr!0''"
         and lengths = "\<lambda>arrRef. Finite 2" and len = 2 and elems = "\<lambda>arrRef idx. Num (idx + 1)"
         and vs = "[Num 1, Num 2]"] elems
  show ?thesis
    by (simp add: emptyModel_def twoElements_def)
qed

section \<open>The function table (C4, C7)\<close>





lemma parseFunctions_step:
  "parseFunctions js (SList [Atom ''ite'', SList condList, thn, els]) numArgs m =
     (case parseFunctions js els numArgs m of
        Inl e \<Rightarrow> Inl e
      | Inr m' \<Rightarrow> recordBranch js condList thn numArgs m')"
  by (subst parseFunctions.simps)
     (simp add: appShape_def capture_def captureName_def captureList_def split: sum.splits)

lemma parseFunctions_leaf:
  "matchSExpr smt appShape = None \<Longrightarrow>
   parseFunctions js smt numArgs m =
     (case parseLazyValue js smt of
        Inl e \<Rightarrow> Inl e
      | Inr val \<Rightarrow> Inr (m\<lparr>funDefaults := (funDefaults m)(numArgs \<mapsto> val)\<rparr>))"
  by (subst parseFunctions.simps) simp









text \<open>So does an equality against a number that cannot be parsed.\<close>

lemma parseFunctions_number_not_parsed:
  "parseFunctions exampleHost
     (SList [Atom ''ite'',
             SList [Atom ''and'', SList [Atom ''='', Atom ''x!0'', SList [Atom ''jsfun'', Atom ''f'']],
                    SList [Atom ''='', Atom ''x!1'', Atom ''jsundefined''],
                    SList [Atom ''='', Atom ''x!2'', Atom ''0''],
                    SList [Atom ''='', Atom ''x!3'', SList [Atom ''jsint'', Atom ''?'']]],
             Atom ''jsnull'', Atom ''jsundefined''])
     (Finite 1) emptyModel
   = Inl (modelError exampleHost ''cannot parse number ?'')"
proof -
  have "parseInt ''?'' 10 = NaN" by code_simp
  then show ?thesis
    by (simp add: parseFunctions_step parseFunctions_leaf appShape_def recordBranch_def
      funcShape_def argShape_def capture_def captureName_def emptyModel_def showNat.simps
      exampleHost_def startsWith_def)
qed





section \<open>Hydration yields concrete values (C1)\<close>

text \<open>
  The types of the tables, as TypeScript declares them: the element, field and heap tables,
  the variables and the defaults hold lazy values, the branches of a function have concrete
  conditions and a lazy result.
\<close>

definition wfModel :: "'n Model \<Rightarrow> bool" where
  "wfModel m =
     ((\<forall>elems arrRef idx. arrElems m = Some elems \<longrightarrow> isLazyValue (elems arrRef idx))
      \<and> (\<forall>flds objRef prop. objFields m = Some flds \<longrightarrow> isLazyValue (flds objRef prop))
      \<and> (\<forall>name heap location. heapMappings m name = Some heap \<longrightarrow> isLazyValue (heap location))
      \<and> (\<forall>name val. vars m name = Some val \<longrightarrow> isLazyValue val)
      \<and> (\<forall>name blocks n body cond ret.
            funs m name = Some blocks \<longrightarrow> (n, body) \<in> set blocks \<longrightarrow> (cond, ret) \<in> set body \<longrightarrow>
            list_all isJSVal cond \<and> isLazyValue ret)
      \<and> (\<forall>n val. funDefaults m n = Some val \<longrightarrow> isLazyValue val))"

lemma concreteTags_members:
  "''num'' \<in> set concreteTags" "''bool'' \<in> set concreteTags" "''str'' \<in> set concreteTags"
  "''null'' \<in> set concreteTags" "''undefined'' \<in> set concreteTags"
  "''fun'' \<in> set concreteTags" "''obj'' \<in> set concreteTags"
  "''obj-cls'' \<in> set concreteTags" "''arr'' \<in> set concreteTags"
  by (simp_all add: concreteTags_def)

lemma isJSVal_tags:
  "isJSVal r \<Longrightarrow> set (tagsOf r) \<subseteq> set concreteTags"
proof (induction r rule: isJSVal.induct)
  case (1 kvs)
  then show ?case by (auto simp: list_all_iff concreteTags_members)
next
  case (2 c args)
  then show ?case by (auto simp: list_all_iff concreteTags_members)
next
  case (3 elems)
  then show ?case by (auto simp: list_all_iff concreteTags_members)
qed (simp_all add: concreteTags_members)

lemma concrete_not_reference: "set concreteTags \<inter> set referenceTags = {}"
  by (simp add: concreteTags_def referenceTags_def)

lemma sequence_map_all:
  "sequence (map f xs) = Some (Inr vs) \<Longrightarrow> (\<And>x r. x \<in> set xs \<Longrightarrow> f x = Some (Inr r) \<Longrightarrow> P r)
   \<Longrightarrow> list_all P vs"
proof (induction xs arbitrary: vs)
  case Nil
  then show ?case by simp
next
  case (Cons x xs)
  from Cons.prems(1) obtain v vs' where
    x: "f x = Some (Inr v)" and xs: "sequence (map f xs) = Some (Inr vs')" and vs: "vs = v # vs'"
    by (auto split: option.splits sum.splits)
  from Cons.prems(2) [of x v] x have "P v" by simp
  moreover have "list_all P vs'"
  proof (rule Cons.IH [OF xs])
    fix y r assume "y \<in> set xs" "f y = Some (Inr r)"
    then show "P r" using Cons.prems(2) [of y r] by simp
  qed
  ultimately show ?case using vs by simp
qed

lemma assign_all:
  "list_all (\<lambda>kv. P (snd kv)) obj \<Longrightarrow> P v \<Longrightarrow> list_all (\<lambda>kv. P (snd kv)) (assign obj k v)"
  by (induction obj k v rule: assign.induct) auto

lemma insertIndex_all:
  "list_all (\<lambda>kv. P (snd kv)) obj \<Longrightarrow> P v \<Longrightarrow> list_all (\<lambda>kv. P (snd kv)) (insertIndex obj k v)"
  by (induction obj k v rule: insertIndex.induct) auto

lemma setProperty_all:
  "list_all (\<lambda>kv. P (snd kv)) obj \<Longrightarrow> P v \<Longrightarrow> list_all (\<lambda>kv. P (snd kv)) (setProperty obj k v)"
  by (simp add: setProperty_def assign_all insertIndex_all)

lemma setProperty_fold_all:
  "list_all P vs \<Longrightarrow> list_all (\<lambda>kv. P (snd kv)) acc
   \<Longrightarrow> list_all (\<lambda>kv. P (snd kv)) (foldl (\<lambda>obj (key, v). setProperty obj key v) acc (zip keys vs))"
proof (induction keys arbitrary: vs acc)
  case Nil
  then show ?case by simp
next
  case (Cons k keys)
  show ?case
  proof (cases vs)
    case Nil
    with Cons.prems show ?thesis by simp
  next
    case (Cons v vs')
    with Cons.prems Cons.IH [of vs' "setProperty acc k v"] show ?thesis
      by (simp add: setProperty_all)
  qed
qed

lemma isLazyValue_default:
  "isLazyValue v \<Longrightarrow> (\<forall>cls args. v \<noteq> ObjCls cls args) \<Longrightarrow> (\<forall>n. v \<noteq> FunRef n)
   \<Longrightarrow> (\<forall>n. v \<noteq> ArrRef n) \<Longrightarrow> (\<forall>n. v \<noteq> ObjRef n) \<Longrightarrow> isJSVal v"
  by (cases v) auto

text \<open>Hydration of a lazy value against well-typed tables gives a concrete value.\<close>

lemma hydrate_isJSVal:
  "wfModel m \<Longrightarrow> isLazyValue v \<Longrightarrow> hydrate n js m v = Some (Inr r) \<Longrightarrow> isJSVal r"
proof (induction n arbitrary: v r)
  case 0
  then show ?case by simp
next
  case (Suc n)
  note IH = Suc.IH [OF Suc.prems(1)]
  show ?case
  proof (cases v)
    case (ObjCls cls args)
    with Suc.prems(3) obtain vs where
      s: "sequence (map (hydrate n js m) args) = Some (Inr vs)" and r: "r = ObjCls cls vs"
      by (auto split: option.splits sum.splits)
    have "list_all isJSVal vs"
    proof (rule sequence_map_all [OF s])
      fix x r' assume "x \<in> set args" "hydrate n js m x = Some (Inr r')"
      moreover from this Suc.prems(2) ObjCls have "isLazyValue x" by (simp add: list_all_iff)
      ultimately show "isJSVal r'" using IH by blast
    qed
    with r show ?thesis by simp
  next
    case (FunRef name)
    with Suc.prems(3) obtain e where "r = Fun e"
      by (auto simp: Let_def split: option.splits sum.splits if_splits prod.splits)
    then show ?thesis by simp
  next
    case (ArrRef name)
    with Suc.prems(3) obtain lengths idxs vs where
      l: "arrLengths m = Some lengths"
      and s: "sequence (map (\<lambda>i. case arrElems m of
                                     None \<Rightarrow> Some (Inl (modelError js ''no arrelems''))
                                   | Some elems \<Rightarrow> hydrate n js m (elems name (int i))) idxs)
              = Some (Inr vs)"
      and r: "r = Arr vs"
      by (auto split: option.splits sum.splits)
    have "list_all isJSVal vs"
    proof (rule sequence_map_all [OF s])
      fix i r'
      assume h: "(case arrElems m of None \<Rightarrow> Some (Inl (modelError js ''no arrelems''))
                  | Some elems \<Rightarrow> hydrate n js m (elems name (int i))) = Some (Inr r')"
      then obtain elems where e: "arrElems m = Some elems"
        and h': "hydrate n js m (elems name (int i)) = Some (Inr r')"
        by (auto split: option.splits)
      from Suc.prems(1) e have "isLazyValue (elems name (int i))" by (simp add: wfModel_def)
      with IH h' show "isJSVal r'" by blast
    qed
    with r show ?thesis by simp
  next
    case (ObjRef name)
    with Suc.prems(3) obtain properties flds keys vs where
      f: "objFields m = Some flds"
      and s: "sequence (map (\<lambda>key. hydrate n js m (flds name key)) keys) = Some (Inr vs)"
      and r: "r = Obj (foldl (\<lambda>obj (key, v). setProperty obj key v) [] (zip keys vs))"
      by (auto simp: Let_def split: option.splits sum.splits if_splits)
    have "list_all isJSVal vs"
    proof (rule sequence_map_all [OF s])
      fix key r' assume h: "hydrate n js m (flds name key) = Some (Inr r')"
      from Suc.prems(1) f have "isLazyValue (flds name key)" by (simp add: wfModel_def)
      with IH h show "isJSVal r'" by blast
    qed
    then have "list_all (\<lambda>kv. isJSVal (snd kv))
                 (foldl (\<lambda>obj (key, v). setProperty obj key v) [] (zip keys vs))"
      by (rule setProperty_fold_all) simp
    with r show ?thesis by simp
  qed (use Suc.prems in auto)
qed

text \<open>What the parsers return is of the type they declare.\<close>

lemma parseLazyValue_lazy:
  "parseLazyValue js s = Inr v \<Longrightarrow> isLazyValue v"
  "parseLazyValues js ss = Inr vs \<Longrightarrow> list_all isLazyValue vs"
proof (induction js s and js ss arbitrary: v and vs rule: parseLazyValue_parseLazyValues.induct)
  case (1 js s)
  then show ?case by (auto split: if_splits)
next
  case (2 js)
  then show ?case by simp
next
  case (3 js t rest)
  then show ?case by simp
next
  case (4 js tag rest)
  show ?case
  proof (cases "startsWith tag ''jsobj_'' \<and> tag \<noteq> ''jsbool'' \<and> tag \<noteq> ''jsint'' \<and> tag \<noteq> ''jsreal''
      \<and> tag \<noteq> ''jsstr'' \<and> tag \<noteq> ''jsfun'' \<and> tag \<noteq> ''jsobj'' \<and> tag \<noteq> ''jsobj_Array''")
    case True
    with "4.prems" obtain args where a: "parseLazyValues js rest = Inr args"
      and v: "v = ObjCls (drop 6 tag) args"
      by (auto simp: Let_def split: sum.splits)
    from True "4.IH" [OF refl _ _ _ _ _ _ _ a] have "list_all isLazyValue args" by simp
    with v show ?thesis by simp
  next
    case False
    with "4.prems" show ?thesis
      by (auto simp: Let_def split: if_splits list.splits SExpr.splits sum.splits option.splits)
  qed
next
  case (5 js)
  then show ?case by simp
next
  case (6 js a as)
  then show ?case by (auto split: sum.splits)
qed

lemma tryParseSimpleValue_JSVal:
  "tryParseSimpleValue js s = Inr (Some v) \<Longrightarrow> isJSVal v"
  by (induction js s rule: tryParseSimpleValue.induct)
     (auto split: if_splits list.splits SExpr.splits sum.splits option.splits)

lemma argConds_JSVal:
  "argConds js cs idx acc = Inr (Some fullCond) \<Longrightarrow> list_all isJSVal acc
   \<Longrightarrow> list_all isJSVal fullCond"
  by (induction cs arbitrary: idx acc)
     (auto split: option.splits sum.splits dest: tryParseSimpleValue_JSVal)

lemma parseArrayElems_lazy:
  "parseArrayElems js smt = Inr f \<Longrightarrow> isLazyValue (f arrRef idx)"
proof (induction js smt arbitrary: f rule: parseArrayElems.induct)
  case (1 js smt)
  show ?case
  proof (cases "matchSExpr smt
             (PList [PLit ''ite'',
                     PList [PLit ''and'', PList [PLit ''='', PLit ''x!0'', PName ''arr''],
                            PList [PLit ''='', PLit ''x!1'', PName ''i'']],
                     PExpr ''then'', PExpr ''els''])")
    case None
    with "1.prems" obtain val where "parseLazyValue js smt = Inr val" "f = (\<lambda>arrRef idx. val)"
      by (subst (asm) parseArrayElems.simps) (auto split: sum.splits)
    then show ?thesis by (simp add: parseLazyValue_lazy(1))
  next
    case (Some iteMatch)
    with "1.prems" obtain thn els where
      t: "parseArrayElems js (capture iteMatch ''then'') = Inr thn"
      and e: "parseArrayElems js (capture iteMatch ''els'') = Inr els"
      and f: "f = (\<lambda>arrRef idx. if arrRef = captureName iteMatch ''arr''
                                    \<and> Finite idx = parseInt (captureName iteMatch ''i'') 10
                                 then thn arrRef idx else els arrRef idx)"
      by (subst (asm) parseArrayElems.simps) (auto simp: Let_def split: sum.splits)
    from "1.IH"(1) [OF Some t] "1.IH"(2) [OF Some t e] show ?thesis unfolding f by auto
  qed
qed

lemma parseObjectFields_lazy:
  "parseObjectFields js smt = Inr f \<Longrightarrow> isLazyValue (f objRef prop)"
proof (induction js smt arbitrary: f rule: parseObjectFields.induct)
  case (1 js smt)
  show ?case
  proof (cases "matchSExpr smt
             (PList [PLit ''ite'',
                     PList [PLit ''and'', PList [PLit ''='', PLit ''x!0'', PName ''obj''],
                            PList [PLit ''='', PLit ''x!1'', PName ''s'']],
                     PExpr ''then'', PExpr ''els''])")
    case None
    with "1.prems" obtain val where "parseLazyValue js smt = Inr val" "f = (\<lambda>objRef prop. val)"
      by (subst (asm) parseObjectFields.simps) (auto split: sum.splits)
    then show ?thesis by (simp add: parseLazyValue_lazy(1))
  next
    case (Some iteMatch)
    with "1.prems" obtain thn els strValue where
      t: "parseObjectFields js (capture iteMatch ''then'') = Inr thn"
      and e: "parseObjectFields js (capture iteMatch ''els'') = Inr els"
      and f: "f = (\<lambda>objRef prop. if objRef = captureName iteMatch ''obj'' \<and> prop = strValue
                                  then thn objRef prop else els objRef prop)"
      by (subst (asm) parseObjectFields.simps) (auto split: sum.splits option.splits)
    from "1.IH"(1) [OF Some t] "1.IH"(2) [OF Some t e] show ?thesis unfolding f by auto
  qed
qed

lemma parseHeapMapping_lazy:
  "parseHeapMapping js smt = Inr f \<Longrightarrow> isLazyValue (f location)"
proof (induction js smt arbitrary: f rule: parseHeapMapping.induct)
  case (1 js smt)
  show ?case
  proof (cases "matchSExpr smt
             (PList [PLit ''ite'', PList [PLit ''='', PLit ''x!0'', PName ''loc''],
                     PExpr ''then'', PExpr ''els''])")
    case None
    with "1.prems" obtain val where "parseLazyValue js smt = Inr val" "f = (\<lambda>l. val)"
      by (subst (asm) parseHeapMapping.simps) (auto split: sum.splits)
    then show ?thesis by (simp add: parseLazyValue_lazy(1))
  next
    case (Some iteMatch)
    with "1.prems" obtain thn els where
      t: "parseHeapMapping js (capture iteMatch ''then'') = Inr thn"
      and e: "parseHeapMapping js (capture iteMatch ''els'') = Inr els"
      and f: "f = (\<lambda>l. if l = Some (captureName iteMatch ''loc'') then thn l else els l)"
      by (subst (asm) parseHeapMapping.simps) (auto split: sum.splits)
    from "1.IH"(1) [OF Some t] "1.IH"(2) [OF Some t e] show ?thesis unfolding f by auto
  qed
qed

lemma set_assign: "set (assign kvs k v) \<subseteq> insert (k, v) (set kvs)"
  by (induction kvs k v rule: assign.induct) auto

lemma wfModel_funs_update:
  assumes "wfModel m"
    and "\<And>n body cond ret. (n, body) \<in> set blocks \<Longrightarrow> (cond, ret) \<in> set body
           \<Longrightarrow> list_all isJSVal cond \<and> isLazyValue ret"
  shows "wfModel (m\<lparr>funs := (funs m)(name \<mapsto> blocks)\<rparr>)"
  using assms unfolding wfModel_def by (simp (no_asm_simp), (blast)?)

lemma wfModel_blocks:
  "wfModel m \<Longrightarrow> funs m name = Some blocks \<Longrightarrow> (n, body) \<in> set blocks \<Longrightarrow> (cond, ret) \<in> set body
   \<Longrightarrow> list_all isJSVal cond \<and> isLazyValue ret"
  unfolding wfModel_def by blast

lemma recordBranch_wfModel:
  assumes "wfModel m" and "recordBranch js condList thn numArgs m = Inr m'"
  shows "wfModel m'"
proof (cases "matchSExpr (condList ! 1) funcShape")
  case None
  with assms show ?thesis by (auto simp: recordBranch_def split: if_splits)
next
  case (Some funcMatch)
  define funcName where "funcName = captureName funcMatch ''func''"
  define funcBlocks where
    "funcBlocks = (case funs m funcName of Some blocks \<Rightarrow> blocks | None \<Rightarrow> [])"
  define fn where "fn = (case map_of funcBlocks numArgs of Some f \<Rightarrow> f | None \<Rightarrow> [])"
  have old: "list_all isJSVal cond \<and> isLazyValue ret"
    if "(n, body) \<in> set funcBlocks" "(cond, ret) \<in> set body" for n body cond ret
  proof (cases "funs m funcName")
    case None
    with that show ?thesis by (simp add: funcBlocks_def)
  next
    case (Some blocks)
    then have "funcBlocks = blocks" by (simp add: funcBlocks_def)
    with that Some wfModel_blocks [OF assms(1), of funcName blocks n body cond ret]
    show ?thesis by simp
  qed
  have fn: "list_all isJSVal cond \<and> isLazyValue ret" if "(cond, ret) \<in> set fn" for cond ret
  proof (cases "map_of funcBlocks numArgs")
    case None
    with that show ?thesis by (simp add: fn_def)
  next
    case (Some body)
    then have "fn = body" "(numArgs, body) \<in> set funcBlocks"
      by (simp_all add: fn_def map_of_SomeD)
    with that old [of numArgs body cond ret] show ?thesis by simp
  qed
  have guard: "\<not> (length condList < 3 \<or> condList ! 0 \<noteq> Atom ''and'')"
    using assms(2) by (rule_tac ccontr) (simp add: recordBranch_def)
  with Some have rb: "recordBranch js condList thn numArgs m =
      (case argConds js (drop 4 condList) 4 [] of
         Inl e \<Rightarrow> Inl e
       | Inr None \<Rightarrow> Inr (m\<lparr>funs := (funs m)(funcName \<mapsto> assign funcBlocks numArgs fn)\<rparr>)
       | Inr (Some fullCond) \<Rightarrow>
           (case parseLazyValue js thn of
              Inl e \<Rightarrow> Inl e
            | Inr ret \<Rightarrow>
                Inr (m\<lparr>funs := (funs m)(funcName \<mapsto>
                       assign funcBlocks numArgs ((fullCond, ret) # fn))\<rparr>)))"
    unfolding recordBranch_def Let_def funcName_def funcBlocks_def fn_def
    by (simp only: if_False option.case)
  from assms(2) consider
    (dropped) "m' = m\<lparr>funs := (funs m)(funcName \<mapsto> assign funcBlocks numArgs fn)\<rparr>"
    | (kept) fullCond ret where
      "argConds js (drop 4 condList) 4 [] = Inr (Some fullCond)"
      "parseLazyValue js thn = Inr ret"
      "m' = m\<lparr>funs := (funs m)(funcName \<mapsto> assign funcBlocks numArgs ((fullCond, ret) # fn))\<rparr>"
    unfolding rb by (auto split: sum.splits option.splits)
  then show ?thesis
  proof cases
    case dropped
    show ?thesis unfolding dropped
    proof (rule wfModel_funs_update [OF assms(1)])
      fix n body cond ret
      assume a: "(n, body) \<in> set (assign funcBlocks numArgs fn)" "(cond, ret) \<in> set body"
      from a(1) set_assign [of funcBlocks numArgs fn]
      have "(n, body) = (numArgs, fn) \<or> (n, body) \<in> set funcBlocks" by blast
      with a(2) old fn show "list_all isJSVal cond \<and> isLazyValue ret" by blast
    qed
  next
    case kept
    from kept(1) have c: "list_all isJSVal fullCond" by (rule argConds_JSVal) simp
    from kept(2) have r: "isLazyValue ret" by (rule parseLazyValue_lazy(1))
    show ?thesis unfolding kept(3)
    proof (rule wfModel_funs_update [OF assms(1)])
      fix n body cond' ret'
      assume a: "(n, body) \<in> set (assign funcBlocks numArgs ((fullCond, ret) # fn))"
        "(cond', ret') \<in> set body"
      from a(1) set_assign [of funcBlocks numArgs "(fullCond, ret) # fn"]
      have "(n, body) = (numArgs, (fullCond, ret) # fn) \<or> (n, body) \<in> set funcBlocks" by blast
      then show "list_all isJSVal cond' \<and> isLazyValue ret'"
      proof
        assume "(n, body) = (numArgs, (fullCond, ret) # fn)"
        with a(2) have "(cond', ret') = (fullCond, ret) \<or> (cond', ret') \<in> set fn" by auto
        with c r fn show ?thesis by blast
      next
        assume "(n, body) \<in> set funcBlocks"
        with a(2) old show ?thesis by blast
      qed
    qed
  qed
qed

lemma parseFunctions_wfModel:
  "wfModel m \<Longrightarrow> parseFunctions js smt numArgs m = Inr m' \<Longrightarrow> wfModel m'"
proof (induction js smt numArgs m arbitrary: m' rule: parseFunctions.induct)
  case (1 js smt numArgs m)
  show ?case
  proof (cases "matchSExpr smt appShape")
    case None
    with "1.prems"(2) obtain val where v: "parseLazyValue js smt = Inr val"
      and m': "m' = m\<lparr>funDefaults := (funDefaults m)(numArgs \<mapsto> val)\<rparr>"
      by (subst (asm) parseFunctions.simps) (auto split: sum.splits)
    from v have "isLazyValue val" by (rule parseLazyValue_lazy(1))
    with "1.prems"(1) show ?thesis unfolding m' wfModel_def by (simp (no_asm_simp), (blast)?)
  next
    case (Some iteMatch)
    with "1.prems"(2) obtain m1 where
      e: "parseFunctions js (capture iteMatch ''els'') numArgs m = Inr m1"
      and rb: "recordBranch js (captureList iteMatch ''cond'') (capture iteMatch ''then'') numArgs m1
               = Inr m'"
      by (subst (asm) parseFunctions.simps) (auto split: sum.splits)
    from "1.IH" [OF Some "1.prems"(1) e] rb show ?thesis by (rule recordBranch_wfModel)
  qed
qed

text \<open>Every definition that is decoded keeps the tables well typed; so does construction.\<close>

lemma wfModel_updates:
  "wfModel m \<Longrightarrow> isLazyValue v \<Longrightarrow> wfModel (m\<lparr>vars := (vars m)(k \<mapsto> v)\<rparr>)"
  "wfModel m \<Longrightarrow> wfModel (m\<lparr>locs := l\<rparr>)"
  "wfModel m \<Longrightarrow> wfModel (m\<lparr>heaps := h\<rparr>)"
  "wfModel m \<Longrightarrow> wfModel (m\<lparr>arrLengths := al\<rparr>)"
  "wfModel m \<Longrightarrow> wfModel (m\<lparr>objProperties := op\<rparr>)"
  "wfModel m \<Longrightarrow> wfModel (m\<lparr>objPropertyMappings := opm\<rparr>)"
  "wfModel m \<Longrightarrow> (\<And>a i. isLazyValue (ae a i)) \<Longrightarrow> wfModel (m\<lparr>arrElems := Some ae\<rparr>)"
  "wfModel m \<Longrightarrow> (\<And>a p. isLazyValue (ofl a p)) \<Longrightarrow> wfModel (m\<lparr>objFields := Some ofl\<rparr>)"
  "wfModel m \<Longrightarrow> (\<And>l. isLazyValue (hm l))
     \<Longrightarrow> wfModel (m\<lparr>heapMappings := (heapMappings m)(k \<mapsto> hm)\<rparr>)"
  unfolding wfModel_def by (simp_all (no_asm_simp))

lemma wfModel_empty: "wfModel emptyModel"
  by (simp add: wfModel_def emptyModel_def)

lemma parseDefinition_wfModel:
  assumes "wfModel m" and "parseDefinition js data m = Inr m'"
  shows "wfModel m'"
proof (cases "matchSExpr data defineFunShape")
  case None
  with assms show ?thesis by (auto simp: parseDefinition_def split: if_splits)
next
  case (Some mt)
  have ng: "\<not> (case data of Atom a \<Rightarrow> True | SList es \<Rightarrow> length es < 1)"
    using assms(2) by (rule_tac ccontr) (simp add: parseDefinition_def)
  note intros = wfModel_updates [OF assms(1)] parseFunctions_wfModel [OF assms(1)]
  from assms Some ng show ?thesis
    unfolding parseDefinition_def Let_def
    by (auto split: if_splits sum.splits SExpr.splits option.splits
        intro: intros
        dest: parseLazyValue_lazy(1) parseArrayElems_lazy parseObjectFields_lazy
          parseHeapMapping_lazy)
qed

lemma parseDefinitions_wfModel:
  "wfModel m \<Longrightarrow> parseDefinitions js ss m = Inr m' \<Longrightarrow> wfModel m'"
  by (induction ss arbitrary: m) (auto split: sum.splits dest: parseDefinition_wfModel)

lemma Model_new_wfModel:
  "Model_new js parseSExpr smt = Inr m \<Longrightarrow> wfModel m"
  by (auto simp: Model_new_def Let_def split: sum.splits SExpr.splits if_splits
      dest: parseDefinitions_wfModel [OF wfModel_empty])

text \<open>
  So a query answered from an own key of a table gives a concrete value: a plain name bound
  in \<^verbatim>\<open>vars\<close>, and a location bound in \<^verbatim>\<open>locs\<close> with a heap generation whose mapping is defined.
\<close>

definition concrete :: "'n Any \<Rightarrow> bool" where
  "concrete r = (case r of Node v \<Rightarrow> isJSVal v | _ \<Rightarrow> False)"

lemma hydrateAny_Node_concrete:
  "wfModel m \<Longrightarrow> isLazyValue v \<Longrightarrow> hydrateAny fuel js m (Node v) = Some (Inr r) \<Longrightarrow> concrete r"
  by (auto simp: hydrateAny_def concrete_def split: option.splits sum.splits dest: hydrate_isJSVal)

lemma valueOf_Var_own_concrete:
  assumes "wfModel m" and "vars m x = Some val" and "x \<noteq> ''__proto__''"
    and "valueOf fuel js m (Var x) = Some (Inr r)"
  shows "concrete r"
proof -
  from assms(1,2) have "isLazyValue val" by (simp add: wfModel_def)
  moreover from assms(2-4) have "hydrateAny fuel js m (Node val) = Some (Inr r)"
    by (simp add: valueOf_def getProperty_def)
  ultimately show ?thesis using assms(1) by (rule_tac hydrateAny_Node_concrete)
qed

lemma valueOf_HeapVar_own_concrete:
  assumes "wfModel m" and "locs m x = Some l" and "x \<noteq> ''__proto__''"
    and "heaps m h = Some heapName" and "heapMappings m heapName = Some heap"
    and "valueOf fuel js m (HeapVar x h) = Some (Inr r)"
  shows "concrete r"
proof -
  from assms(1,5) have "isLazyValue (heap (Some l))" by (simp add: wfModel_def)
  moreover from assms(2-6) have "hydrateAny fuel js m (Node (heap (Some l))) = Some (Inr r)"
    by (simp add: valueOf_def getProperty_def memberOf_def)
  ultimately show ?thesis using assms(1) by (rule_tac hydrateAny_Node_concrete)
qed

text \<open>A model in which the variable \<^verbatim>\<open>__proto__\<close> is a class instance with an array as its
  argument, and the heap of generation 0 is called \<^verbatim>\<open>constructor\<close>.\<close>

definition inheritingModel :: "int Model" where
  "inheritingModel =
     emptyModel\<lparr>vars := [''__proto__'' \<mapsto> ObjCls ''X'' [ArrRef ''Arr!0'']],
                locs := [''p'' \<mapsto> ''L0''], heaps := [Finite 0 \<mapsto> ''constructor'']\<rparr>"

lemma inheritingModel_decoded:
  \<open>Model_new exampleHost
      (\<lambda>s. Inr (SList [Atom ''model'',
           SList [Atom ''define-fun'', Atom ''v___proto__'', SList [], Atom ''JSVal'',
                  SList [Atom ''jsobj_X'', Atom ''Arr!0'']],
           SList [Atom ''define-fun'', Atom ''l_p'', SList [], Atom ''Loc'', Atom ''L0''],
           SList [Atom ''define-fun'', Atom ''h_0'', SList [], Atom ''Heap'',
                  SList [Atom ''_'', Atom ''as-array'', Atom ''constructor'']]]))
      (''sat(model (define-fun v___proto__ () JSVal (jsobj_X Arr!0)) ''
       @ ''(define-fun l_p () Loc L0) (define-fun h_0 () Heap (_ as-array constructor)))'')
     = Inr inheritingModel\<close>
  by (simp add: Model_new_def parseDefinition_def defineFunShape_def startsWith_def capture_def
      captureName_def emptyModel_def inheritingModel_def parseInt_def isWhiteSpace_def
      isDigitOf_def digitValue_def digitsValue_def)

text \<open>
  C1: every value produced by hydration, and hence every value \<^verbatim>\<open>valueOf\<close> returns, contains no
  reference variant: no \<^verbatim>\<open>arr-ref\<close>, \<^verbatim>\<open>obj-ref\<close>, \<^verbatim>\<open>fun-ref\<close> or \<^verbatim>\<open>loc\<close> tag occurs anywhere in it,
  only the nine concrete nodes. Hydration of a lazy value keeps this (\<open>hydrate_isJSVal\<close>), but
  \<^verbatim>\<open>valueOf\<close> also hands to hydration, and returns unchanged, what \<^verbatim>\<open>this.vars[name]\<close> and
  \<^verbatim>\<open>heap(loc)\<close> find through the prototypes of the tables. In the model decoded above the
  plain name \<^verbatim>\<open>args\<close> gives the argument array of the class instance, with its \<^verbatim>\<open>arr-ref\<close> not
  hydrated; the location \<^verbatim>\<open>p\<close> in the heap of generation 0 gives the \<^verbatim>\<open>loc\<close> object itself,
  which \<^verbatim>\<open>Object\<close> returns; and the plain name \<^verbatim>\<open>toString\<close> gives a built-in function.
\<close>

theorem valueOf_returns_reference:
  "valueOf fuel exampleHost inheritingModel (Var ''args'')
     = Some (Inr (ArrayValue [ArrRef ''Arr!0'']))
   \<and> \<not> concrete (ArrayValue [ArrRef ''Arr!0''] :: int Any)
   \<and> valueOf (Suc fuel) exampleHost inheritingModel (HeapVar ''p'' (Finite 0))
       = Some (Inr (Node (Loc ''L0'')))
   \<and> \<not> concrete (Node (Loc ''L0'') :: int Any)
   \<and> valueOf fuel exampleHost inheritingModel (Var ''toString'') = Some (Inr (Builtin ''toString''))
   \<and> \<not> concrete (Builtin ''toString'' :: int Any)"
  by (simp add: valueOf_def getProperty_def memberOf_def objectPrototypeKeys_def hydrateAny_def
      callBuiltin_def concrete_def inheritingModel_def emptyModel_def)

section \<open>Repeated queries and repeated decoding (C9)\<close>

text \<open>The result of a hydration does not depend on the depth granted to it: a greater depth
  gives the same value or the same error.\<close>

lemma sequence_map_mono:
  "(\<And>x r. x \<in> set xs \<Longrightarrow> f x = Some r \<Longrightarrow> g x = Some r)
   \<Longrightarrow> sequence (map f xs) = Some res \<Longrightarrow> sequence (map g xs) = Some res"
proof (induction xs arbitrary: res)
  case Nil
  then show ?case by simp
next
  case (Cons x xs)
  from Cons.prems(2) obtain rx where fx: "f x = Some rx"
    by (auto split: option.splits)
  with Cons.prems(1) have gx: "g x = Some rx" by simp
  show ?case
  proof (cases rx)
    case (Inl e)
    with fx gx Cons.prems(2) show ?thesis by simp
  next
    case (Inr v)
    with fx Cons.prems(2) obtain rs where fs: "sequence (map f xs) = Some rs"
      by (auto split: option.splits)
    have "sequence (map g xs) = Some rs"
    proof (rule Cons.IH [OF _ fs])
      fix y r assume "y \<in> set xs" "f y = Some r"
      then show "g y = Some r" using Cons.prems(1) [of y r] by simp
    qed
    with fs fx gx Inr Cons.prems(2) show ?thesis by simp
  qed
qed

lemma funBody_mono:
  "(\<And>x r. f x = Some r \<Longrightarrow> g x = Some r)
   \<Longrightarrow> funBody f bs d body = Some res \<Longrightarrow> funBody g bs d body = Some res"
proof (induction bs arbitrary: d body)
  case Nil
  then show ?case by simp
next
  case (Cons b bs)
  obtain cond ret where b: "b = (cond, ret)" by (cases b)
  show ?case
  proof (cases "length cond = 0")
    case True
    with Cons b show ?thesis by simp
  next
    case False
    with Cons.prems(2) b obtain rx where fx: "f ret = Some rx"
      by (auto split: option.splits)
    with Cons.prems(1) have gx: "g ret = Some rx" by simp
    from False b fx gx Cons.prems(2) Cons.IH [OF Cons.prems(1)] show ?thesis
      by (cases rx) auto
  qed
qed

text \<open>A result reached at one depth is the result at every greater depth.\<close>

lemma hydrate_Suc:
  "hydrate n js m v = Some res \<Longrightarrow> hydrate (Suc n) js m v = Some res"
proof (induction n arbitrary: v res)
  case 0
  then show ?case by simp
next
  case (Suc n)
  have mono: "\<And>x r. hydrate n js m x = Some r \<Longrightarrow> hydrate (Suc n) js m x = Some r"
    by (rule Suc.IH)
  show ?case
  proof (cases v)
    case (ObjCls cls args)
    with Suc.prems obtain rs where s: "sequence (map (hydrate n js m) args) = Some rs"
      by (auto split: option.splits)
    have "sequence (map (hydrate (Suc n) js m) args) = Some rs"
      by (rule sequence_map_mono [OF _ s]) (rule mono)
    with s Suc.prems ObjCls show ?thesis by simp
  next
    case (FunRef name)
    show ?thesis
    proof (cases "funs m name")
      case None
      with Suc.prems FunRef show ?thesis by simp
    next
      case (Some funcBlocks)
      show ?thesis
      proof (cases "length funcBlocks \<noteq> 1")
        case True
        with Suc.prems FunRef Some show ?thesis by simp
      next
        case False
        define numArgs where "numArgs = fst (hd funcBlocks)"
        define fn where "fn = snd (hd funcBlocks)"
        from Suc.prems FunRef Some False obtain rb where
          fb: "funBody (hydrate n js m) fn (funDefaults m numArgs) [] = Some rb"
          by (auto simp: Let_def numArgs_def fn_def split: option.splits)
        have fb': "funBody (hydrate (Suc n) js m) fn (funDefaults m numArgs) [] = Some rb"
          by (rule funBody_mono [OF _ fb]) (rule mono)
        show ?thesis
        proof (cases rb)
          case (Inl e)
          with Suc.prems FunRef Some False fb fb' show ?thesis
            by (simp add: Let_def numArgs_def fn_def)
        next
          case (Inr p)
          obtain defaultVal body where p: "p = (defaultVal, body)" by (cases p)
          show ?thesis
          proof (cases defaultVal)
            case None
            with Suc.prems FunRef Some False fb fb' Inr p show ?thesis
              by (auto simp: Let_def numArgs_def fn_def)
          next
            case (Some d)
            with Suc.prems FunRef \<open>funs m name = Some funcBlocks\<close> False fb Inr p
            obtain rd where hd: "hydrate n js m d = Some rd"
              by (auto simp: Let_def numArgs_def fn_def split: option.splits)
            from mono [OF hd] hd Some Suc.prems FunRef \<open>funs m name = Some funcBlocks\<close>
              False fb fb' Inr p
            show ?thesis
              by (simp add: Let_def numArgs_def fn_def)
          qed
        qed
      qed
    qed
  next
    case (ArrRef name)
    show ?thesis
    proof (cases "arrLengths m")
      case None
      with Suc.prems ArrRef show ?thesis by simp
    next
      case (Some lengths)
      show ?thesis
      proof (cases "arrayIndices (lengths name)")
        case (Inl e)
        with Suc.prems ArrRef Some show ?thesis by simp
      next
        case (Inr idxs)
        let ?f = "\<lambda>k i. case arrElems m of
                           None \<Rightarrow> Some (Inl (modelError js ''no arrelems''))
                         | Some elems \<Rightarrow> hydrate k js m (elems name (int i))"
        from Suc.prems ArrRef Some Inr obtain rs where
          s: "sequence (map (?f n) idxs) = Some rs"
          by (auto split: option.splits)
        have "sequence (map (?f (Suc n)) idxs) = Some rs"
        proof (rule sequence_map_mono [OF _ s])
          fix i r assume "?f n i = Some r"
          then show "?f (Suc n) i = Some r"
            using mono by (auto split: option.splits)
        qed
        with s Suc.prems ArrRef Some Inr show ?thesis by simp
      qed
    qed
  next
    case (ObjRef name)
    show ?thesis
    proof (cases "objProperties m")
      case None
      with Suc.prems ObjRef show ?thesis by simp
    next
      case (Some properties)
      note props = Some
      show ?thesis
      proof (cases "objFields m")
        case None
        with Suc.prems ObjRef props show ?thesis by simp
      next
        case (Some flds)
        note fl = Some
        show ?thesis
        proof (cases "objPropertyMappings m (properties name)")
          case None
          with Suc.prems ObjRef props fl show ?thesis by simp
        next
          case (Some keys)
          with Suc.prems ObjRef props fl obtain rs where
            s: "sequence (map (\<lambda>key. hydrate n js m (flds name key)) keys) = Some rs"
            by (auto split: option.splits)
          have "sequence (map (\<lambda>key. hydrate (Suc n) js m (flds name key)) keys) = Some rs"
            by (rule sequence_map_mono [OF _ s]) (rule mono)
          with s Suc.prems ObjRef props fl Some show ?thesis by simp
        qed
      qed
    qed
  qed (use Suc.prems in auto)
qed

lemma hydrate_add:
  "hydrate n js m v = Some res \<Longrightarrow> hydrate (n + k) js m v = Some res"
proof (induction k)
  case 0
  then show ?case by simp
next
  case (Suc k)
  then have "hydrate (Suc (n + k)) js m v = Some res" by (intro hydrate_Suc) simp
  then show ?case by (simp del: hydrate.simps)
qed

lemma hydrate_mono:
  "n \<le> n' \<Longrightarrow> hydrate n js m v = Some res \<Longrightarrow> hydrate n' js m v = Some res"
  using hydrate_add [of n js m v res "n' - n"] by (simp del: hydrate.simps)

lemma hydrate_depth_independent:
  assumes "hydrate d1 js m v = Some r1" and "hydrate d2 js m v = Some r2"
  shows "r1 = r2"
proof -
  from hydrate_mono [OF max.cobounded1 assms(1), of d2]
    hydrate_mono [OF max.cobounded2 assms(2), of d1]
  show ?thesis by simp
qed

lemma hydrateAny_depth_independent:
  assumes "hydrateAny d1 js m v = Some r1" and "hydrateAny d2 js m v = Some r2"
  shows "r1 = r2"
proof (cases v)
  case (Node val)
  with assms obtain a b where a: "hydrate d1 js m val = Some a" and b: "hydrate d2 js m val = Some b"
    by (auto simp: hydrateAny_def split: option.splits)
  from hydrate_depth_independent [OF a b] have "a = b" .
  with assms a b Node show ?thesis by (auto simp: hydrateAny_def split: sum.splits)
qed (use assms in \<open>auto simp: hydrateAny_def\<close>)

lemma valueOf_depth_independent:
  assumes "valueOf d1 js m name = Some r1" and "valueOf d2 js m name = Some r2"
  shows "r1 = r2"
  using assms
  by (auto simp: valueOf_def Let_def split: FreeVar.splits option.splits if_splits sum.splits
      dest: hydrateAny_depth_independent)

text \<open>
  The state that instances share. A function name that \<^verbatim>\<open>Object.prototype\<close> has is found in
  \<^verbatim>\<open>this.funs\<close> of every instance by inheritance, and \<^verbatim>\<open>parseFunctions\<close> writes its entries on
  the inherited member, which is an object of the process. \<open>sharedEntries m\<close> are the entries
  on those members as the instance \<open>m\<close> sees them; \<open>inProcess entries m\<close> is the instance \<open>m\<close>
  in a process where they are \<open>entries\<close>; and \<open>Model_new_in\<close> is the constructor in such a
  process: it is \<open>Model_new\<close>, which is the case of no entries, with the fresh instance
  placed in the process.
\<close>

definition sharedEntries :: "'n Model \<Rightarrow> string \<rightharpoonup> (jsint \<times> 'n LazyFun) list" where
  "sharedEntries m = (\<lambda>name. if name \<in> set objectPrototypeKeys then funs m name else None)"

definition inProcess :: "(string \<rightharpoonup> (jsint \<times> 'n LazyFun) list) \<Rightarrow> 'n Model \<Rightarrow> 'n Model" where
  "inProcess entries m =
     m\<lparr>funs := (\<lambda>name. if name \<in> set objectPrototypeKeys then entries name else funs m name)\<rparr>"

definition Model_new_in ::
  "(string \<rightharpoonup> (jsint \<times> 'n LazyFun) list) \<Rightarrow> 'n Host \<Rightarrow> (string \<Rightarrow> string + SExpr) \<Rightarrow> string
     \<Rightarrow> error + 'n Model" where
  "Model_new_in entries js parseSExpr smt =
     (let smt2 = drop 3 smt;
          unthrown = (if startsWith (trim smt2) ''(error'' then Some (modelError js (trim smt2)) else None)
      in case parseSExpr (trim smt2) of
           Inl message \<Rightarrow> Inl (modelError js message)
         | Inr data \<Rightarrow>
             (case data of
                Atom a \<Rightarrow> Inl (modelError js a)
              | SList es \<Rightarrow>
                  if length es < 2 then Inl (modelError js smt)
                  else if es ! 0 \<noteq> Atom ''model'' then Inl (modelError js smt)
                  else parseDefinitions js (drop 1 es) (inProcess entries emptyModel)))"

lemma inProcess_sharedEntries: "inProcess (sharedEntries m) m = m"
proof -
  have "(\<lambda>name. if name \<in> set objectPrototypeKeys then sharedEntries m name else funs m name)
      = funs m"
    by (auto simp: sharedEntries_def)
  then show ?thesis by (simp add: inProcess_def)
qed

lemma inProcess_fresh: "inProcess Map.empty emptyModel = emptyModel"
proof -
  have "(\<lambda>name. if name \<in> set objectPrototypeKeys then None else funs emptyModel name)
      = funs (emptyModel :: 'a Model)"
    by (auto simp: emptyModel_def)
  then show ?thesis by (simp add: inProcess_def)
qed

lemma Model_new_in_fresh: "Model_new_in Map.empty js parseSExpr smt = Model_new js parseSExpr smt"
  unfolding Model_new_in_def Model_new_def inProcess_fresh ..

text \<open>
  A solver output with the variable \<open>f\<close>, a function value called \<^verbatim>\<open>toString\<close>, and the
  application table for one argument, in which that function has one branch; the models of
  a first and of a second decoding in the same process; and the two functions they give.
\<close>

definition toStringText :: string where
  "toStringText =
     ''sat(model (define-fun v_f () JSVal (jsfun toString)) ''
     @ ''(define-fun app1 ((x!0 JSVal) (x!1 JSVal) (x!2 Heap) (x!3 JSVal)) JSVal ''
     @ ''(ite (and (= x!0 (jsfun toString)) (= x!1 jsundefined) (= x!2 0) (= x!3 (jsbool true))) ''
     @ ''jsnull jsundefined)))''"

definition toStringTree :: SExpr where
  "toStringTree =
     SList [Atom ''model'',
       SList [Atom ''define-fun'', Atom ''v_f'', SList [], Atom ''JSVal'',
              SList [Atom ''jsfun'', Atom ''toString'']],
       SList [Atom ''define-fun'', Atom ''app1'',
              SList [SList [Atom ''x!0'', Atom ''JSVal''], SList [Atom ''x!1'', Atom ''JSVal''],
                     SList [Atom ''x!2'', Atom ''Heap''], SList [Atom ''x!3'', Atom ''JSVal'']],
              Atom ''JSVal'',
              SList [Atom ''ite'',
                     SList [Atom ''and'',
                            SList [Atom ''='', Atom ''x!0'', SList [Atom ''jsfun'', Atom ''toString'']],
                            SList [Atom ''='', Atom ''x!1'', Atom ''jsundefined''],
                            SList [Atom ''='', Atom ''x!2'', Atom ''0''],
                            SList [Atom ''='', Atom ''x!3'', SList [Atom ''jsbool'', Atom ''true'']]],
                     Atom ''jsnull'', Atom ''jsundefined'']]]"

definition firstDecoding :: "int Model" where
  "firstDecoding =
     emptyModel\<lparr>vars := [''f'' \<mapsto> FunRef ''toString''],
                funs := [''toString'' \<mapsto> [(Finite 1, [([Bool True], Null)])]],
                funDefaults := [Finite 1 \<mapsto> Undefined]\<rparr>"

definition secondDecoding :: "int Model" where
  "secondDecoding =
     emptyModel\<lparr>vars := [''f'' \<mapsto> FunRef ''toString''],
                funs := [''toString'' \<mapsto> [(Finite 1, [([Bool True], Null), ([Bool True], Null)])]],
                funDefaults := [Finite 1 \<mapsto> Undefined]\<rparr>"

definition ifTrueNull :: "int Statement" where
  "ifTrueNull =
     IfStatement (BinaryExpression ''==='' (Identifier ''x_0'') (Literal (LitBool True)))
       (BlockStatement [ReturnStatement (Literal LitNull)]) (BlockStatement [])"

definition oneBranch :: "int Any" where
  "oneBranch =
     Node (Fun (FunctionExpression None [Identifier ''x_0''] [] []
       (BlockStatement [ifTrueNull, ReturnStatement (Literal LitUndefined)]) []))"

definition twoBranchesTwice :: "int Any" where
  "twoBranchesTwice =
     Node (Fun (FunctionExpression None [Identifier ''x_0''] [] []
       (BlockStatement [ifTrueNull, ifTrueNull, ReturnStatement (Literal LitUndefined)]) []))"

lemma firstDecoding_decoded:
  "Model_new exampleHost (\<lambda>s. Inr toStringTree) toStringText = Inr firstDecoding"
  by (simp add: Model_new_def toStringTree_def parseDefinition_def defineFunShape_def
      startsWith_def capture_def captureName_def captureList_def emptyModel_def firstDecoding_def
      parseFunctions.simps appShape_def recordBranch_def funcShape_def argShape_def
      parseInt_def isWhiteSpace_def isDigitOf_def digitValue_def digitsValue_def showNat.simps
      Let_def)

lemma secondDecoding_decoded:
  "Model_new_in (sharedEntries firstDecoding) exampleHost (\<lambda>s. Inr toStringTree) toStringText
     = Inr secondDecoding"
  by (simp add: Model_new_in_def inProcess_def sharedEntries_def objectPrototypeKeys_def
      toStringTree_def parseDefinition_def defineFunShape_def
      startsWith_def capture_def captureName_def captureList_def emptyModel_def firstDecoding_def
      secondDecoding_def fun_eq_iff
      parseFunctions.simps appShape_def recordBranch_def funcShape_def argShape_def
      parseInt_def isWhiteSpace_def isDigitOf_def digitValue_def digitsValue_def showNat.simps
      Let_def)

text \<open>
  C9: decoding the same model text twice gives two instances whose queries agree, and
  repeated queries on one instance agree. \<^verbatim>\<open>valueOf\<close> and \<^verbatim>\<open>hydrate\<close> write nothing, but the
  constructor may write outside the instance: the branches of a function whose name
  \<^verbatim>\<open>Object.prototype\<close> has are put on the inherited member, where the next decoding finds
  them and adds its own. With the output above, the first instance gives for \<open>f\<close> a function
  with one branch; the instance of a second decoding of the same text gives a function with
  that branch twice; and so does the first instance when it is asked again afterwards.
\<close>

theorem decoding_twice_differs:
  "Model_new exampleHost (\<lambda>s. Inr toStringTree) toStringText = Inr firstDecoding
   \<and> valueOf 2 exampleHost firstDecoding (Var ''f'') = Some (Inr oneBranch)
   \<and> Model_new_in (sharedEntries firstDecoding) exampleHost (\<lambda>s. Inr toStringTree) toStringText
       = Inr secondDecoding
   \<and> valueOf 2 exampleHost secondDecoding (Var ''f'') = Some (Inr twoBranchesTwice)
   \<and> valueOf 2 exampleHost (inProcess (sharedEntries secondDecoding) firstDecoding) (Var ''f'')
       = Some (Inr twoBranchesTwice)
   \<and> oneBranch \<noteq> twoBranchesTwice"
proof -
  have v1: "valueOf 2 exampleHost firstDecoding (Var ''f'') = Some (Inr oneBranch)"
    by (simp add: valueOf_def getProperty_def hydrateAny_def firstDecoding_def emptyModel_def
        numeral_2_eq_2 branchTest_def arrayIndices_def id_node_def oneBranch_def ifTrueNull_def
        showNat.simps)
  have v2: "valueOf 2 exampleHost secondDecoding (Var ''f'') = Some (Inr twoBranchesTwice)"
    by (simp add: valueOf_def getProperty_def hydrateAny_def secondDecoding_def emptyModel_def
        numeral_2_eq_2 branchTest_def arrayIndices_def id_node_def twoBranchesTwice_def
        ifTrueNull_def showNat.simps)
  have v3: "valueOf 2 exampleHost (inProcess (sharedEntries secondDecoding) firstDecoding) (Var ''f'')
      = Some (Inr twoBranchesTwice)"
    by (simp add: valueOf_def getProperty_def hydrateAny_def inProcess_def sharedEntries_def
        objectPrototypeKeys_def secondDecoding_def firstDecoding_def emptyModel_def
        numeral_2_eq_2 branchTest_def arrayIndices_def id_node_def twoBranchesTwice_def
        ifTrueNull_def showNat.simps)
  have ne: "oneBranch \<noteq> twoBranchesTwice"
    by (simp add: oneBranch_def twoBranchesTwice_def)
  from firstDecoding_decoded secondDecoding_decoded v1 v2 v3 ne show ?thesis by simp
qed

end
